theory Spec2Isabelle
  imports Complex_Main
begin

section \<open>Values read from and written to the JSON files\<close>

text \<open>
  The value \<^verbatim>\<open>json.loads\<close> returns. A Python \<^verbatim>\<open>dict\<close> keeps its keys in
  insertion order and \<^verbatim>\<open>json.dumps\<close> writes them in that order, so an object is an
  association list. A float is finite, infinite (\<^verbatim>\<open>Infinity\<close>, \<^verbatim>\<open>1e999\<close>) or
  \<^verbatim>\<open>NaN\<close>; \<^verbatim>\<open>json.loads\<close> accepts all three.
\<close>

datatype pyfloat = Finite rat | PosInf | NegInf | NaN

datatype json =
    JNull
  | JBool bool
  | JInt int
  | JFloat pyfloat
  | JStr string
  | JArray "json list"
  | JObject "(string \<times> json) list"

text \<open>The exceptions that the program can meet.\<close>

datatype exn =
    KeyError
  | TypeError
  | ValueError
  | OverflowError
  | AttributeError
  | UnicodeDecodeError
  | UnicodeEncodeError
  | RecursionError
  | OSError

text \<open>
  The builtins of Python whose results the program only passes on: \<^verbatim>\<open>str(x)\<close> of a
  value that is not a \<^verbatim>\<open>str\<close> (the text Python prints for it), \<^verbatim>\<open>int(s)\<close> of a
  \<^verbatim>\<open>str\<close> (\<open>None\<close> when it raises \<^verbatim>\<open>ValueError\<close>) and \<^verbatim>\<open>s.strip()\<close>;
  and the two ways in which serializing and writing a value fails: \<open>int_prints i\<close>
  says that \<^verbatim>\<open>json.dumps\<close> can print the integer \<open>i\<close> (it raises
  \<^verbatim>\<open>ValueError\<close> on one with more digits than the interpreter's limit, 4300 by
  default), \<open>str_encodes s\<close> that the string \<open>s\<close> can be encoded in UTF-8
  (\<^verbatim>\<open>write_text\<close> raises \<^verbatim>\<open>UnicodeEncodeError\<close> on a string with a lone
  surrogate, which \<^verbatim>\<open>json.loads\<close> accepts as \<^verbatim>\<open>"\ud800"\<close>).
  Every function below that uses one of them takes them as the parameter \<open>py\<close>.
\<close>

record builtins =
  str_of :: "json \<Rightarrow> string"
  int_of_text :: "string \<Rightarrow> int option"
  strip :: "string \<Rightarrow> string"
  int_prints :: "int \<Rightarrow> bool"
  str_encodes :: "string \<Rightarrow> bool"

text \<open>
  A value whose class is \<^verbatim>\<open>int\<close> or its subclass \<^verbatim>\<open>bool\<close>: what an argument or
  a field annotated \<^verbatim>\<open>int\<close> holds. In arithmetic and comparisons \<^verbatim>\<open>True\<close> is 1
  and \<^verbatim>\<open>False\<close> is 0; \<^verbatim>\<open>json.dumps\<close> writes them \<^verbatim>\<open>true\<close> and
  \<^verbatim>\<open>false\<close>.
\<close>

datatype pyint = PyInt int | PyBool bool

fun int_value :: "pyint \<Rightarrow> int" where
  "int_value (PyInt i) = i"
| "int_value (PyBool b) = (if b then 1 else 0)"

fun pyint_json :: "pyint \<Rightarrow> json" where
  "pyint_json (PyInt i) = JInt i"
| "pyint_json (PyBool b) = JBool b"

definition py_str :: "builtins \<Rightarrow> json \<Rightarrow> string" where
  "py_str py v = (case v of JStr s \<Rightarrow> s | _ \<Rightarrow> str_of py v)"

definition trunc :: "rat \<Rightarrow> int" where
  "trunc q = (if q < 0 then - \<lfloor>- q\<rfloor> else \<lfloor>q\<rfloor>)"

fun py_int :: "builtins \<Rightarrow> json \<Rightarrow> exn + int" where
  "py_int py (JInt i) = Inr i"
| "py_int py (JBool b) = Inr (if b then 1 else 0)"
| "py_int py (JFloat (Finite q)) = Inr (trunc q)"
| "py_int py (JFloat NaN) = Inl ValueError"
| "py_int py (JFloat PosInf) = Inl OverflowError"
| "py_int py (JFloat NegInf) = Inl OverflowError"
| "py_int py (JStr s) = (case int_of_text py s of Some i \<Rightarrow> Inr i | None \<Rightarrow> Inl ValueError)"
| "py_int py JNull = Inl TypeError"
| "py_int py (JArray xs) = Inl TypeError"
| "py_int py (JObject kvs) = Inl TypeError"

text \<open>
  \<^verbatim>\<open>data[key]\<close> with a string key: \<^verbatim>\<open>KeyError\<close> on a dict without the key,
  \<^verbatim>\<open>TypeError\<close> on every value that is not a dict.
\<close>

fun subscript :: "json \<Rightarrow> string \<Rightarrow> exn + json" where
  "subscript (JObject kvs) k = (case map_of kvs k of Some v \<Rightarrow> Inr v | None \<Rightarrow> Inl KeyError)"
| "subscript v k = Inl TypeError"

text \<open>\<^verbatim>\<open>data.get(key, default)\<close>: only a dict has the method.\<close>

fun dict_get :: "json \<Rightarrow> string \<Rightarrow> json \<Rightarrow> exn + json" where
  "dict_get (JObject kvs) k d = Inr (case map_of kvs k of Some v \<Rightarrow> v | None \<Rightarrow> d)"
| "dict_get v k d = Inl AttributeError"

definition is_list :: "json \<Rightarrow> bool" where
  "is_list v = (case v of JArray xs \<Rightarrow> True | _ \<Rightarrow> False)"

text \<open>Sequencing of computations that may raise: the first exception wins.\<close>

definition and_then :: "exn + 'a \<Rightarrow> ('a \<Rightarrow> exn + 'b) \<Rightarrow> exn + 'b" where
  "and_then r f = (case r of Inl e \<Rightarrow> Inl e | Inr x \<Rightarrow> f x)"

text \<open>
  \<^verbatim>\<open>except (KeyError, TypeError, ValueError)\<close>: these classes and their subclasses.
\<close>

definition handled :: "exn \<Rightarrow> bool" where
  "handled e =
     (e = KeyError \<or> e = TypeError \<or> e = ValueError \<or> e = UnicodeDecodeError
      \<or> e = UnicodeEncodeError)"

text \<open>The integers and the strings (keys included) that a value holds.\<close>

fun json_ints :: "json \<Rightarrow> int list" where
  "json_ints (JInt i) = [i]"
| "json_ints (JArray vs) = concat (map json_ints vs)"
| "json_ints (JObject kvs) = concat (map (\<lambda>kv. json_ints (snd kv)) kvs)"
| "json_ints v = []"

fun json_strs :: "json \<Rightarrow> string list" where
  "json_strs (JStr s) = [s]"
| "json_strs (JArray vs) = concat (map json_strs vs)"
| "json_strs (JObject kvs) = concat (map (\<lambda>kv. fst kv # json_strs (snd kv)) kvs)"
| "json_strs v = []"

section \<open>Domain models\<close>

record hotel =
  hotel_id :: string
  name :: string
  city :: string
  total_rooms :: int

record customer =
  customer_id :: string
  customer_name :: string
  email :: string

record reservation =
  reservation_id :: string
  res_hotel_id :: string
  res_customer_id :: string
  rooms :: pyint
  status :: string

section \<open>The files, and what the program does to them\<close>

text \<open>
  The three keys of \<^verbatim>\<open>DataStore._paths\<close>. A file is described by what reading and
  parsing it gives: it does not exist; \<^verbatim>\<open>json.loads\<close> raises
  \<^verbatim>\<open>JSONDecodeError\<close> at a line and column (an empty file: line 1, column 1);
  reading or parsing raises another exception (bytes that are not UTF-8, an integer
  with too many digits, nesting too deep, a directory in place of the file); or
  \<^verbatim>\<open>json.loads\<close> returns a value. \<^verbatim>\<open>json.dumps\<close> is a function of the rows, so two
  files holding the same document written by \<^verbatim>\<open>_save_raw\<close> hold the same bytes, and
  two holding different documents hold different bytes.
\<close>

datatype key = Hotels | Customers | Reservations

datatype content =
    Missing
  | Malformed int int
  | Fault exn
  | Document json

text \<open>The calls of \<^verbatim>\<open>logging.error\<close>, one constructor for each message.\<close>

datatype message =
    Invalid_hotel_record exn
  | Invalid_customer_record exn
  | Invalid_reservation_record exn
  | Must_contain_array key
  | Invalid_JSON key int int
  | Cannot_delete_hotel string
  | Hotel_not_found string
  | Cannot_delete_customer string
  | Customer_not_found string
  | Rooms_must_be_positive
  | Not_enough_rooms int int
  | Already_cancelled string
  | Reservation_not_found string

datatype event = Read key | Write key | Log message

record world =
  hotels_json :: content
  customers_json :: content
  reservations_json :: content
  trace :: "event list"

type_synonym 'a io = "world \<Rightarrow> (exn + 'a) \<times> world"

definition io_return :: "'a \<Rightarrow> 'a io" where
  "io_return x = (\<lambda>w. (Inr x, w))"

definition io_raise :: "exn \<Rightarrow> 'a io" where
  "io_raise e = (\<lambda>w. (Inl e, w))"

definition io_bind :: "'a io \<Rightarrow> ('a \<Rightarrow> 'b io) \<Rightarrow> 'b io" where
  "io_bind m f = (\<lambda>w. case m w of (Inl e, w') \<Rightarrow> (Inl e, w') | (Inr x, w') \<Rightarrow> f x w')"

definition emit :: "event \<Rightarrow> unit io" where
  "emit ev = (\<lambda>w. (Inr (), w\<lparr>trace := trace w @ [ev]\<rparr>))"

definition logging_error :: "message \<Rightarrow> unit io" where
  "logging_error m = emit (Log m)"

definition files :: "world \<Rightarrow> content \<times> content \<times> content" where
  "files w = (hotels_json w, customers_json w, reservations_json w)"

fun writes :: "event list \<Rightarrow> key list" where
  "writes [] = []"
| "writes (Write k # evs) = k # writes evs"
| "writes (ev # evs) = writes evs"

subsection \<open>Construction of the models from a raw record\<close>

definition Hotel_to_dict :: "hotel \<Rightarrow> json" where
  "Hotel_to_dict h = JObject
     [(''hotel_id'', JStr (hotel_id h)), (''name'', JStr (name h)),
      (''city'', JStr (city h)), (''total_rooms'', JInt (total_rooms h))]"

definition Hotel_of :: "builtins \<Rightarrow> json \<Rightarrow> exn + hotel" where
  "Hotel_of py data =
     and_then (subscript data ''hotel_id'') (\<lambda>a.
     and_then (subscript data ''name'') (\<lambda>b.
     and_then (subscript data ''city'') (\<lambda>c.
     and_then (subscript data ''total_rooms'') (\<lambda>d.
     and_then (py_int py d) (\<lambda>n.
       Inr \<lparr>hotel_id = py_str py a, name = py_str py b, city = py_str py c,
            total_rooms = n\<rparr>)))))"

definition Hotel_from_dict :: "builtins \<Rightarrow> json \<Rightarrow> hotel option io" where
  "Hotel_from_dict py data =
     (case Hotel_of py data of
        Inr h \<Rightarrow> io_return (Some h)
      | Inl e \<Rightarrow>
          if handled e
          then io_bind (logging_error (Invalid_hotel_record e)) (\<lambda>_. io_return None)
          else io_raise e)"

definition Customer_to_dict :: "customer \<Rightarrow> json" where
  "Customer_to_dict c = JObject
     [(''customer_id'', JStr (customer_id c)), (''name'', JStr (customer_name c)),
      (''email'', JStr (email c))]"

definition Customer_of :: "builtins \<Rightarrow> json \<Rightarrow> exn + customer" where
  "Customer_of py data =
     and_then (subscript data ''customer_id'') (\<lambda>a.
     and_then (subscript data ''name'') (\<lambda>b.
     and_then (subscript data ''email'') (\<lambda>c.
       Inr \<lparr>customer_id = py_str py a, customer_name = py_str py b,
            email = py_str py c\<rparr>)))"

definition Customer_from_dict :: "builtins \<Rightarrow> json \<Rightarrow> customer option io" where
  "Customer_from_dict py data =
     (case Customer_of py data of
        Inr c \<Rightarrow> io_return (Some c)
      | Inl e \<Rightarrow>
          if handled e
          then io_bind (logging_error (Invalid_customer_record e)) (\<lambda>_. io_return None)
          else io_raise e)"

definition Reservation_to_dict :: "reservation \<Rightarrow> json" where
  "Reservation_to_dict r = JObject
     [(''reservation_id'', JStr (reservation_id r)), (''hotel_id'', JStr (res_hotel_id r)),
      (''customer_id'', JStr (res_customer_id r)), (''rooms'', pyint_json (rooms r)),
      (''status'', JStr (status r))]"

definition Reservation_of :: "builtins \<Rightarrow> json \<Rightarrow> exn + reservation" where
  "Reservation_of py data =
     and_then (subscript data ''reservation_id'') (\<lambda>a.
     and_then (subscript data ''hotel_id'') (\<lambda>b.
     and_then (subscript data ''customer_id'') (\<lambda>c.
     and_then (subscript data ''rooms'') (\<lambda>d.
     and_then (py_int py d) (\<lambda>n.
     and_then (dict_get data ''status'' (JStr ''active'')) (\<lambda>s.
       Inr \<lparr>reservation_id = py_str py a, res_hotel_id = py_str py b,
            res_customer_id = py_str py c, rooms = PyInt n, status = py_str py s\<rparr>))))))"

definition Reservation_from_dict :: "builtins \<Rightarrow> json \<Rightarrow> reservation option io" where
  "Reservation_from_dict py data =
     (case Reservation_of py data of
        Inr r \<Rightarrow> io_return (Some r)
      | Inl e \<Rightarrow>
          if handled e
          then io_bind (logging_error (Invalid_reservation_record e)) (\<lambda>_. io_return None)
          else io_raise e)"

subsection \<open>DataStore\<close>

definition content_of :: "world \<Rightarrow> key \<Rightarrow> content" where
  "content_of w k =
     (case k of Hotels \<Rightarrow> hotels_json w | Customers \<Rightarrow> customers_json w
      | Reservations \<Rightarrow> reservations_json w)"

definition write_text :: "key \<Rightarrow> content \<Rightarrow> world \<Rightarrow> world" where
  "write_text k c w =
     (case k of Hotels \<Rightarrow> w\<lparr>hotels_json := c\<rparr> | Customers \<Rightarrow> w\<lparr>customers_json := c\<rparr>
      | Reservations \<Rightarrow> w\<lparr>reservations_json := c\<rparr>)"

definition load_raw :: "key \<Rightarrow> json list io" where
  "load_raw k =
     io_bind (emit (Read k)) (\<lambda>_ w.
       case content_of w k of
         Missing \<Rightarrow> io_return [] w
       | Fault e \<Rightarrow> io_raise e w
       | Document d \<Rightarrow>
           (case d of
              JArray rows \<Rightarrow> io_return rows w
            | _ \<Rightarrow> io_bind (logging_error (Must_contain_array k)) (\<lambda>_. io_return []) w)
       | Malformed line col \<Rightarrow>
           io_bind (logging_error (Invalid_JSON k line col)) (\<lambda>_. io_return []) w)"

text \<open>
  \<^verbatim>\<open>json.dumps\<close> comes first and raises on an integer it cannot print, the file
  untouched. \<^verbatim>\<open>write_text\<close> then opens the file, which empties it, and encodes the
  text: on a string it cannot encode it raises and leaves the file empty. The file
  system itself is taken to accept the bytes.
\<close>

definition save_raw :: "builtins \<Rightarrow> key \<Rightarrow> json list \<Rightarrow> unit io" where
  "save_raw py k rows =
     (if \<not> list_all (int_prints py) (concat (map json_ints rows)) then io_raise ValueError
      else
        io_bind (emit (Write k)) (\<lambda>_ w.
          if \<not> list_all (str_encodes py) (concat (map json_strs rows))
          then (Inl UnicodeEncodeError, write_text k (Malformed 1 1) w)
          else (Inr (), write_text k (Document (JArray rows)) w)))"

fun load_loop :: "(json \<Rightarrow> 'a option io) \<Rightarrow> json list \<Rightarrow> 'a list \<Rightarrow> 'a list io" where
  "load_loop from_dict [] acc = io_return acc"
| "load_loop from_dict (row # rows) acc =
     io_bind (from_dict row) (\<lambda>obj.
       case obj of
         Some x \<Rightarrow> load_loop from_dict rows (acc @ [x])
       | None \<Rightarrow> load_loop from_dict rows acc)"

definition load_hotels :: "builtins \<Rightarrow> hotel list io" where
  "load_hotels py = io_bind (load_raw Hotels) (\<lambda>rows. load_loop (Hotel_from_dict py) rows [])"

definition save_hotels :: "builtins \<Rightarrow> hotel list \<Rightarrow> unit io" where
  "save_hotels py hotels = save_raw py Hotels (map Hotel_to_dict hotels)"

definition load_customers :: "builtins \<Rightarrow> customer list io" where
  "load_customers py =
     io_bind (load_raw Customers) (\<lambda>rows. load_loop (Customer_from_dict py) rows [])"

definition save_customers :: "builtins \<Rightarrow> customer list \<Rightarrow> unit io" where
  "save_customers py customers = save_raw py Customers (map Customer_to_dict customers)"

definition load_reservations :: "builtins \<Rightarrow> reservation list io" where
  "load_reservations py =
     io_bind (load_raw Reservations) (\<lambda>rows. load_loop (Reservation_from_dict py) rows [])"

definition save_reservations :: "builtins \<Rightarrow> reservation list \<Rightarrow> unit io" where
  "save_reservations py reservations =
     save_raw py Reservations (map Reservation_to_dict reservations)"

subsection \<open>ReservationSystem\<close>

definition load_all :: "builtins \<Rightarrow> (hotel list \<times> customer list \<times> reservation list) io" where
  "load_all py =
     io_bind (load_hotels py) (\<lambda>hotels.
     io_bind (load_customers py) (\<lambda>customers.
     io_bind (load_reservations py) (\<lambda>reservations.
       io_return (hotels, customers, reservations))))"

definition save_all ::
  "builtins \<Rightarrow> hotel list \<Rightarrow> customer list \<Rightarrow> reservation list \<Rightarrow> unit io" where
  "save_all py hotels customers reservations =
     io_bind (save_hotels py hotels) (\<lambda>_.
     io_bind (save_customers py customers) (\<lambda>_.
       save_reservations py reservations))"

text \<open>
  \<open>new_id\<close> is the string \<^verbatim>\<open>str(uuid.uuid4())\<close> that the call draws. The room count
  of \<^verbatim>\<open>create_hotel\<close> is used in a comparison and under \<^verbatim>\<open>int(...)\<close> only, so it
  is given by its integer value; \<^verbatim>\<open>create_reservation\<close> stores its room count as it
  comes.
\<close>

definition create_hotel :: "builtins \<Rightarrow> string \<Rightarrow> string \<Rightarrow> string \<Rightarrow> int \<Rightarrow> hotel io" where
  "create_hotel py new_id nm cty n =
     (if n \<le> 0 then io_raise ValueError
      else
        io_bind (load_all py) (\<lambda>(hotels, customers, reservations).
          let new_hotel = \<lparr>hotel_id = new_id, name = strip py nm, city = strip py cty,
                           total_rooms = n\<rparr>
          in io_bind (save_all py (hotels @ [new_hotel]) customers reservations) (\<lambda>_.
               io_return new_hotel)))"

definition delete_hotel :: "builtins \<Rightarrow> string \<Rightarrow> bool io" where
  "delete_hotel py hid =
     io_bind (load_all py) (\<lambda>(hotels, customers, reservations).
       if list_ex (\<lambda>r. res_hotel_id r = hid \<and> status r = ''active'') reservations
       then io_bind (logging_error (Cannot_delete_hotel hid)) (\<lambda>_. io_return False)
       else
         let new_hotels = filter (\<lambda>h. hotel_id h \<noteq> hid) hotels
         in if length new_hotels = length hotels
            then io_bind (logging_error (Hotel_not_found hid)) (\<lambda>_. io_return False)
            else io_bind (save_all py new_hotels customers reservations) (\<lambda>_. io_return True))"

definition delete_customer :: "builtins \<Rightarrow> string \<Rightarrow> bool io" where
  "delete_customer py cid =
     io_bind (load_all py) (\<lambda>(hotels, customers, reservations).
       if list_ex (\<lambda>r. res_customer_id r = cid \<and> status r = ''active'') reservations
       then io_bind (logging_error (Cannot_delete_customer cid)) (\<lambda>_. io_return False)
       else
         let new_customers = filter (\<lambda>c. customer_id c \<noteq> cid) customers
         in if length new_customers = length customers
            then io_bind (logging_error (Customer_not_found cid)) (\<lambda>_. io_return False)
            else io_bind (save_all py hotels new_customers reservations) (\<lambda>_. io_return True))"

text \<open>\<^verbatim>\<open>sum(...)\<close> starts from 0 and adds the items from left to right.\<close>

definition hotel_available_rooms :: "hotel \<Rightarrow> reservation list \<Rightarrow> int" where
  "hotel_available_rooms h reservations =
     (let used = foldl (\<lambda>acc r. acc + int_value (rooms r)) 0
                   (filter (\<lambda>r. res_hotel_id r = hotel_id h \<and> status r = ''active'')
                      reservations)
      in total_rooms h - used)"

definition create_reservation ::
  "builtins \<Rightarrow> string \<Rightarrow> string \<Rightarrow> string \<Rightarrow> pyint \<Rightarrow> reservation option io" where
  "create_reservation py new_id hid cid n =
     (if int_value n \<le> 0 then io_bind (logging_error Rooms_must_be_positive) (\<lambda>_. io_return None)
      else
        io_bind (load_all py) (\<lambda>(hotels, customers, reservations).
          case find (\<lambda>h. hotel_id h = hid) hotels of
            None \<Rightarrow> io_bind (logging_error (Hotel_not_found hid)) (\<lambda>_. io_return None)
          | Some h \<Rightarrow>
              (case find (\<lambda>c. customer_id c = cid) customers of
                 None \<Rightarrow>
                   io_bind (logging_error (Customer_not_found cid)) (\<lambda>_. io_return None)
               | Some c \<Rightarrow>
                   let available = hotel_available_rooms h reservations
                   in if int_value n > available
                      then io_bind (logging_error (Not_enough_rooms (int_value n) available))
                             (\<lambda>_. io_return None)
                      else
                        let res = \<lparr>reservation_id = new_id, res_hotel_id = hid,
                                    res_customer_id = cid, rooms = n, status = ''active''\<rparr>
                        in io_bind (save_all py hotels customers (reservations @ [res]))
                             (\<lambda>_. io_return (Some res)))))"

text \<open>
  The loop of \<^verbatim>\<open>cancel_reservation\<close>, with the list \<^verbatim>\<open>updated\<close>, the flag
  \<^verbatim>\<open>found\<close> and the messages it logs.
\<close>

fun cancel_loop ::
  "string \<Rightarrow> reservation list \<Rightarrow> reservation list \<Rightarrow> bool \<Rightarrow> (reservation list \<times> bool) io"
where
  "cancel_loop rid [] updated found = io_return (updated, found)"
| "cancel_loop rid (r # rs) updated found =
     (if reservation_id r = rid
      then
        if status r = ''cancelled''
        then io_bind (logging_error (Already_cancelled rid)) (\<lambda>_.
               cancel_loop rid rs (updated @ [r]) True)
        else cancel_loop rid rs (updated @ [r\<lparr>status := ''cancelled''\<rparr>]) True
      else cancel_loop rid rs (updated @ [r]) found)"

definition cancel_reservation :: "builtins \<Rightarrow> string \<Rightarrow> bool io" where
  "cancel_reservation py rid =
     io_bind (load_all py) (\<lambda>(hotels, customers, reservations).
       io_bind (cancel_loop rid reservations [] False) (\<lambda>(updated, found).
         if \<not> found
         then io_bind (logging_error (Reservation_not_found rid)) (\<lambda>_. io_return False)
         else io_bind (save_all py hotels customers updated) (\<lambda>_. io_return True)))"

subsection \<open>What an operation leaves alone\<close>

text \<open>
  \<open>unchanged w w'\<close>: the three files hold in \<open>w'\<close> what they hold in \<open>w\<close>, and no
  file was written on the way from \<open>w\<close> to \<open>w'\<close>.
\<close>

definition unchanged :: "world \<Rightarrow> world \<Rightarrow> bool" where
  "unchanged w w' = (files w' = files w \<and> writes (trace w') = writes (trace w))"

subsection \<open>Sample data\<close>

text \<open>
  The string \<^verbatim>\<open>"\ud800"\<close>, one lone surrogate, as the bytes that Python's
  \<^verbatim>\<open>surrogatepass\<close> gives it, and builtins for which it is the one string that
  cannot be encoded.
\<close>

definition lone_surrogate :: string where
  "lone_surrogate = [CHR 0xED, CHR 0xA0, CHR 0x80]"

definition py0 :: builtins where
  "py0 = \<lparr>str_of = (\<lambda>v. ''?''), int_of_text = (\<lambda>s. None), strip = (\<lambda>s. s),
          int_prints = (\<lambda>i. True), str_encodes = (\<lambda>s. s \<noteq> lone_surrogate)\<rparr>"

definition azure_inn :: hotel where
  "azure_inn = \<lparr>hotel_id = ''h1'', name = ''Azure Inn'', city = ''Monterrey'', total_rooms = 5\<rparr>"

definition isaac :: customer where
  "isaac = \<lparr>customer_id = ''c1'', customer_name = ''Isaac Reyes'',
             email = ''isaac@example.com''\<rparr>"

definition booking :: "int \<Rightarrow> string \<Rightarrow> reservation" where
  "booking n s = \<lparr>reservation_id = ''r1'', res_hotel_id = ''h1'', res_customer_id = ''c1'',
                   rooms = PyInt n, status = s\<rparr>"

text \<open>The files as \<^verbatim>\<open>_save_all\<close> leaves them, before anything else happens.\<close>

definition stored :: "hotel list \<Rightarrow> customer list \<Rightarrow> reservation list \<Rightarrow> world" where
  "stored hs cs rs =
     \<lparr>hotels_json = Document (JArray (map Hotel_to_dict hs)),
      customers_json = Document (JArray (map Customer_to_dict cs)),
      reservations_json = Document (JArray (map Reservation_to_dict rs)),
      trace = []\<rparr>"

text \<open>The hotels file holds bytes that are not UTF-8, such as Latin-1 text.\<close>

definition latin1 :: world where
  "latin1 = \<lparr>hotels_json = Fault UnicodeDecodeError, customers_json = Missing,
              reservations_json = Missing, trace = []\<rparr>"

text \<open>
  What a file must hold for \<^verbatim>\<open>_save_raw\<close> to write it, and the three collections
  for \<^verbatim>\<open>_save_all\<close> to write them.
\<close>

definition can_save :: "builtins \<Rightarrow> json list \<Rightarrow> bool" where
  "can_save py rows =
     (list_all (int_prints py) (concat (map json_ints rows))
      \<and> list_all (str_encodes py) (concat (map json_strs rows)))"

definition can_save_all ::
  "builtins \<Rightarrow> hotel list \<Rightarrow> customer list \<Rightarrow> reservation list \<Rightarrow> bool" where
  "can_save_all py hs cs rs =
     (can_save py (map Hotel_to_dict hs) \<and> can_save py (map Customer_to_dict cs)
      \<and> can_save py (map Reservation_to_dict rs))"

section \<open>Basic facts\<close>

lemma io_bind_apply:
  "io_bind m f w = (case m w of (Inl e, w') \<Rightarrow> (Inl e, w') | (Inr x, w') \<Rightarrow> f x w')"
  by (simp add: io_bind_def)

lemma io_return_apply: "io_return x w = (Inr x, w)"
  by (simp add: io_return_def)

lemma io_raise_apply: "io_raise e w = (Inl e, w)"
  by (simp add: io_raise_def)

lemma emit_apply: "emit ev w = (Inr (), w\<lparr>trace := trace w @ [ev]\<rparr>)"
  by (simp add: emit_def)

lemma logging_error_apply: "logging_error m w = (Inr (), w\<lparr>trace := trace w @ [Log m]\<rparr>)"
  by (simp add: logging_error_def emit_def)

lemmas io_simps = io_bind_apply io_return_apply io_raise_apply emit_apply logging_error_apply

lemma writes_append: "writes (xs @ ys) = writes xs @ writes ys"
  by (induction xs rule: writes.induct) simp_all

lemma unchanged_refl: "unchanged w w"
  by (simp add: unchanged_def)

lemma unchanged_trans: "unchanged w w1 \<Longrightarrow> unchanged w1 w2 \<Longrightarrow> unchanged w w2"
  by (simp add: unchanged_def)

lemma unchanged_log: "unchanged w (w\<lparr>trace := trace w @ [Log m]\<rparr>)"
  by (simp add: unchanged_def files_def writes_append)

lemma unchanged_read: "unchanged w (w\<lparr>trace := trace w @ [Read k]\<rparr>)"
  by (simp add: unchanged_def files_def writes_append)

lemma load_raw_unchanged: "load_raw k w = (r, w') \<Longrightarrow> unchanged w w'"
  by (auto simp: load_raw_def io_simps unchanged_def files_def writes_append content_of_def
      split: content.splits json.splits key.splits)

lemma Hotel_from_dict_unchanged: "Hotel_from_dict py d w = (r, w') \<Longrightarrow> unchanged w w'"
  by (auto simp: Hotel_from_dict_def io_simps unchanged_def files_def writes_append
      split: sum.splits if_splits)

lemma Customer_from_dict_unchanged: "Customer_from_dict py d w = (r, w') \<Longrightarrow> unchanged w w'"
  by (auto simp: Customer_from_dict_def io_simps unchanged_def files_def writes_append
      split: sum.splits if_splits)

lemma Reservation_from_dict_unchanged:
  "Reservation_from_dict py d w = (r, w') \<Longrightarrow> unchanged w w'"
  by (auto simp: Reservation_from_dict_def io_simps unchanged_def files_def writes_append
      split: sum.splits if_splits)

lemma load_loop_unchanged:
  assumes run: "load_loop f rows acc w = (r, w')"
    and f: "\<And>d w r w'. f d w = (r, w') \<Longrightarrow> unchanged w w'"
  shows "unchanged w w'"
  using run
proof (induction rows arbitrary: acc w)
  case Nil
  then show ?case by (simp add: io_simps unchanged_refl)
next
  case (Cons row rows)
  obtain r1 w1 where step: "f row w = (r1, w1)" by (cases "f row w")
  have u1: "unchanged w w1" using f step .
  show ?case
  proof (cases r1)
    case (Inl e)
    with Cons.prems step u1 show ?thesis by (simp add: io_simps)
  next
    case (Inr obj)
    with Cons.prems step have "load_loop f rows (case obj of Some x \<Rightarrow> acc @ [x] | None \<Rightarrow> acc) w1 = (r, w')"
      by (cases obj) (simp_all add: io_simps)
    then have "unchanged w1 w'" by (rule Cons.IH)
    with u1 show ?thesis by (rule unchanged_trans)
  qed
qed

lemma loader_unchanged:
  assumes run: "io_bind (load_raw k) (\<lambda>rows. load_loop f rows []) w = (r, w')"
    and f: "\<And>d w r w'. f d w = (r, w') \<Longrightarrow> unchanged w w'"
  shows "unchanged w w'"
proof -
  obtain r1 w1 where raw: "load_raw k w = (r1, w1)" by (cases "load_raw k w")
  have u1: "unchanged w w1" using raw by (rule load_raw_unchanged)
  show ?thesis
  proof (cases r1)
    case (Inl e)
    with run raw u1 show ?thesis by (simp add: io_simps)
  next
    case (Inr rows)
    with run raw have "load_loop f rows [] w1 = (r, w')"
      by (simp add: io_simps)
    then have "unchanged w1 w'"
      by (rule load_loop_unchanged) (rule f)
    with u1 show ?thesis by (rule unchanged_trans)
  qed
qed

lemma load_hotels_unchanged: "load_hotels py w = (r, w') \<Longrightarrow> unchanged w w'"
  unfolding load_hotels_def by (erule loader_unchanged) (rule Hotel_from_dict_unchanged)

lemma load_customers_unchanged: "load_customers py w = (r, w') \<Longrightarrow> unchanged w w'"
  unfolding load_customers_def by (erule loader_unchanged) (rule Customer_from_dict_unchanged)

lemma load_reservations_unchanged: "load_reservations py w = (r, w') \<Longrightarrow> unchanged w w'"
  unfolding load_reservations_def
  by (erule loader_unchanged) (rule Reservation_from_dict_unchanged)

lemma load_all_unchanged:
  assumes run: "load_all py w = (r, w')"
  shows "unchanged w w'"
proof -
  obtain r1 w1 where h: "load_hotels py w = (r1, w1)" by (cases "load_hotels py w")
  obtain r2 w2 where c: "load_customers py w1 = (r2, w2)" by (cases "load_customers py w1")
  obtain r3 w3 where v: "load_reservations py w2 = (r3, w3)"
    by (cases "load_reservations py w2")
  note u1 = load_hotels_unchanged [OF h]
  note u2 = unchanged_trans [OF u1 load_customers_unchanged [OF c]]
  note u3 = unchanged_trans [OF u2 load_reservations_unchanged [OF v]]
  from run h c v have "w' = w1 \<or> w' = w2 \<or> w' = w3"
    by (auto simp: load_all_def io_simps split: sum.splits)
  with u1 u2 u3 show ?thesis by blast
qed

lemma save_raw_ok:
  "can_save py rows \<Longrightarrow>
   save_raw py k rows w =
     (Inr (), write_text k (Document (JArray rows)) (w\<lparr>trace := trace w @ [Write k]\<rparr>))"
  by (simp add: save_raw_def can_save_def io_simps)

lemma save_raw_unencodable:
  "list_all (int_prints py) (concat (map json_ints rows)) \<Longrightarrow>
   \<not> list_all (str_encodes py) (concat (map json_strs rows)) \<Longrightarrow>
   save_raw py k rows w =
     (Inl UnicodeEncodeError, write_text k (Malformed 1 1) (w\<lparr>trace := trace w @ [Write k]\<rparr>))"
  by (simp add: save_raw_def io_simps)

lemma save_all_ok:
  "can_save_all py hs cs rs \<Longrightarrow>
   save_all py hs cs rs w =
     (Inr (), w\<lparr>hotels_json := Document (JArray (map Hotel_to_dict hs)),
                customers_json := Document (JArray (map Customer_to_dict cs)),
                reservations_json := Document (JArray (map Reservation_to_dict rs)),
                trace := trace w @ [Write Hotels, Write Customers, Write Reservations]\<rparr>)"
  by (simp add: can_save_all_def save_all_def save_hotels_def save_customers_def
      save_reservations_def save_raw_ok io_simps write_text_def)

lemma Hotel_of_to_dict: "Hotel_of py (Hotel_to_dict h) = Inr h"
  by (simp add: Hotel_of_def Hotel_to_dict_def and_then_def py_str_def)

lemma Customer_of_to_dict: "Customer_of py (Customer_to_dict c) = Inr c"
  by (simp add: Customer_of_def Customer_to_dict_def and_then_def py_str_def)

lemma py_int_pyint_json: "py_int py (pyint_json x) = Inr (int_value x)"
  by (cases x) simp_all

lemma Reservation_of_to_dict:
  "Reservation_of py (Reservation_to_dict r) = Inr (r\<lparr>rooms := PyInt (int_value (rooms r))\<rparr>)"
  by (simp add: Reservation_of_def Reservation_to_dict_def and_then_def py_str_def
      py_int_pyint_json)

lemma load_loop_to_dict:
  assumes f: "\<And>x w. f (g x) w = (Inr (Some (c x)), w)"
  shows "load_loop f (map g xs) acc w = (Inr (acc @ map c xs), w)"
  by (induction xs arbitrary: acc) (simp_all add: io_simps f)

lemma load_hotels_saved:
  "hotels_json w = Document (JArray (map Hotel_to_dict hs)) \<Longrightarrow>
   load_hotels py w = (Inr hs, w\<lparr>trace := trace w @ [Read Hotels]\<rparr>)"
  using load_loop_to_dict [of "Hotel_from_dict py" Hotel_to_dict "\<lambda>h. h" hs "[]"]
  by (simp add: load_hotels_def load_raw_def io_simps content_of_def
      Hotel_from_dict_def Hotel_of_to_dict)

lemma load_customers_saved:
  "customers_json w = Document (JArray (map Customer_to_dict cs)) \<Longrightarrow>
   load_customers py w = (Inr cs, w\<lparr>trace := trace w @ [Read Customers]\<rparr>)"
  using load_loop_to_dict [of "Customer_from_dict py" Customer_to_dict "\<lambda>c. c" cs "[]"]
  by (simp add: load_customers_def load_raw_def io_simps content_of_def
      Customer_from_dict_def Customer_of_to_dict)

lemma load_reservations_saved:
  "reservations_json w = Document (JArray (map Reservation_to_dict rs)) \<Longrightarrow>
   load_reservations py w =
     (Inr (map (\<lambda>r. r\<lparr>rooms := PyInt (int_value (rooms r))\<rparr>) rs),
      w\<lparr>trace := trace w @ [Read Reservations]\<rparr>)"
  using load_loop_to_dict [of "Reservation_from_dict py" Reservation_to_dict
      "\<lambda>r. r\<lparr>rooms := PyInt (int_value (rooms r))\<rparr>" rs "[]"]
  by (simp add: load_reservations_def load_raw_def io_simps content_of_def
      Reservation_from_dict_def Reservation_of_to_dict)

lemma load_all_saved:
  "hotels_json w = Document (JArray (map Hotel_to_dict hs)) \<Longrightarrow>
   customers_json w = Document (JArray (map Customer_to_dict cs)) \<Longrightarrow>
   reservations_json w = Document (JArray (map Reservation_to_dict rs)) \<Longrightarrow>
   load_all py w =
     (Inr (hs, cs, map (\<lambda>r. r\<lparr>rooms := PyInt (int_value (rooms r))\<rparr>) rs),
      w\<lparr>trace := trace w @ [Read Hotels, Read Customers, Read Reservations]\<rparr>)"
  by (simp add: load_all_def io_simps load_hotels_saved load_customers_saved
      load_reservations_saved)

text \<open>Every reservation that comes out of a load holds a plain integer as its rooms.\<close>

lemma load_loop_all:
  assumes run: "load_loop f rows acc w = (Inr xs, w')"
    and acc: "\<forall>x\<in>set acc. P x"
    and f: "\<And>d w x w'. f d w = (Inr (Some x), w') \<Longrightarrow> P x"
  shows "\<forall>x\<in>set xs. P x"
  using run acc
proof (induction rows arbitrary: acc w)
  case Nil
  then show ?case by (simp add: io_simps)
next
  case (Cons row rows)
  obtain r1 w1 where step: "f row w = (r1, w1)" by (cases "f row w")
  show ?case
  proof (cases r1)
    case (Inl e)
    with Cons.prems step show ?thesis by (simp add: io_simps)
  next
    case (Inr obj)
    show ?thesis
    proof (cases obj)
      case None
      with Inr Cons.prems step have "load_loop f rows acc w1 = (Inr xs, w')"
        by (simp add: io_simps)
      then show ?thesis using Cons.prems(2) by (rule Cons.IH)
    next
      case (Some x)
      with Inr step have "P x" using f by blast
      with Cons.prems(2) have acc': "\<forall>y\<in>set (acc @ [x]). P y" by simp
      from Some Inr Cons.prems step have "load_loop f rows (acc @ [x]) w1 = (Inr xs, w')"
        by (simp add: io_simps)
      then show ?thesis using acc' by (rule Cons.IH)
    qed
  qed
qed

lemma Reservation_from_dict_rooms:
  "Reservation_from_dict py d w = (Inr (Some r), w') \<Longrightarrow> rooms r = PyInt (int_value (rooms r))"
  by (auto simp: Reservation_from_dict_def Reservation_of_def and_then_def io_simps
      split: sum.splits if_splits)

lemma load_reservations_rooms:
  assumes "load_reservations py w = (Inr rs, w')"
  shows "\<forall>r\<in>set rs. rooms r = PyInt (int_value (rooms r))"
proof -
  obtain r1 w1 where raw: "load_raw Reservations w = (r1, w1)"
    by (cases "load_raw Reservations w")
  from assms raw obtain rows where "r1 = Inr rows"
      and "load_loop (Reservation_from_dict py) rows [] w1 = (Inr rs, w')"
    by (cases r1) (simp_all add: load_reservations_def io_simps)
  then show ?thesis
    using load_loop_all [of "Reservation_from_dict py" rows "[]" w1 rs w'
        "\<lambda>r. rooms r = PyInt (int_value (rooms r))"] Reservation_from_dict_rooms
    by simp
qed

lemma load_all_rooms:
  assumes "load_all py w = (Inr (hs, cs, rs), w1)"
  shows "map (\<lambda>r. r\<lparr>rooms := PyInt (int_value (rooms r))\<rparr>) rs = rs"
proof -
  from assms obtain wa wb where "load_reservations py wa = (Inr rs, wb)"
    by (auto simp: load_all_def io_simps split: sum.splits prod.splits)
  then have "\<forall>r\<in>set rs. rooms r = PyInt (int_value (rooms r))"
    by (rule load_reservations_rooms)
  then show ?thesis by (simp add: map_idI)
qed

lemma load_all_after_save:
  "can_save_all py hs cs rs \<Longrightarrow>
   fst (load_all py (snd (save_all py hs cs rs w))) =
     Inr (hs, cs, map (\<lambda>r. r\<lparr>rooms := PyInt (int_value (rooms r))\<rparr>) rs)"
  by (simp add: save_all_ok load_all_saved)

lemma load_all_stored:
  "load_all py (stored hs cs rs) =
     (Inr (hs, cs, map (\<lambda>r. r\<lparr>rooms := PyInt (int_value (rooms r))\<rparr>) rs),
      (stored hs cs rs)\<lparr>trace := [Read Hotels, Read Customers, Read Reservations]\<rparr>)"
  using load_all_saved [of "stored hs cs rs" hs cs rs py] by (simp add: stored_def)

lemma booking_rooms: "(booking n s)\<lparr>rooms := PyInt (int_value (rooms (booking n s)))\<rparr> = booking n s"
  by (simp add: booking_def)

lemma content_of_trace: "content_of (w\<lparr>trace := t\<rparr>) k = content_of w k"
  by (cases k) (simp_all add: content_of_def)

lemma foldl_rooms:
  "foldl (\<lambda>acc r. acc + int_value (rooms r)) a rs = a + (\<Sum>r\<leftarrow>rs. int_value (rooms r))"
  by (induction rs arbitrary: a) simp_all

lemma length_filter_eq: "length (filter P xs) = length xs \<longleftrightarrow> (\<forall>x\<in>set xs. P x)"
proof
  assume eq: "length (filter P xs) = length xs"
  show "\<forall>x\<in>set xs. P x"
  proof
    fix x assume "x \<in> set xs"
    then show "P x" using eq length_filter_less [of x xs P] by auto
  qed
next
  assume "\<forall>x\<in>set xs. P x"
  then show "length (filter P xs) = length xs" by simp
qed

lemma list_ex_set: "list_ex P xs \<longleftrightarrow> (\<exists>x\<in>set xs. P x)"
  by (simp add: list_ex_iff)

lemma unchanged_then_log: "unchanged w w1 \<Longrightarrow> unchanged w (w1\<lparr>trace := trace w1 @ [Log m]\<rparr>)"
  by (simp add: unchanged_def files_def writes_append)

lemma load_all_stored_int:
  assumes "map (\<lambda>r. r\<lparr>rooms := PyInt (int_value (rooms r))\<rparr>) rs = rs"
  shows "load_all py (stored hs cs rs) =
     (Inr (hs, cs, rs),
      (stored hs cs rs)\<lparr>trace := [Read Hotels, Read Customers, Read Reservations]\<rparr>)"
  using load_all_stored [of py hs cs rs] assms by simp

lemma load_all_booking:
  "load_all py (stored hs cs [booking n s]) =
     (Inr (hs, cs, [booking n s]),
      (stored hs cs [booking n s])\<lparr>trace := [Read Hotels, Read Customers, Read Reservations]\<rparr>)"
  by (rule load_all_stored_int) (simp add: booking_def)

lemma load_all_no_booking:
  "load_all py (stored hs cs []) =
     (Inr (hs, cs, []),
      (stored hs cs [])\<lparr>trace := [Read Hotels, Read Customers, Read Reservations]\<rparr>)"
  by (rule load_all_stored_int) simp

lemma create_reservation_apply:
  assumes "load_all py w = (Inr (hs, cs, rs), w1)" and "0 < int_value n"
  shows "create_reservation py new_id hid cid n w =
     (case find (\<lambda>h. hotel_id h = hid) hs of
        None \<Rightarrow> (Inr None, w1\<lparr>trace := trace w1 @ [Log (Hotel_not_found hid)]\<rparr>)
      | Some h \<Rightarrow>
          (case find (\<lambda>c. customer_id c = cid) cs of
             None \<Rightarrow> (Inr None, w1\<lparr>trace := trace w1 @ [Log (Customer_not_found cid)]\<rparr>)
           | Some c \<Rightarrow>
               if int_value n > hotel_available_rooms h rs
               then (Inr None,
                     w1\<lparr>trace := trace w1 @
                        [Log (Not_enough_rooms (int_value n) (hotel_available_rooms h rs))]\<rparr>)
               else io_bind
                      (save_all py hs cs
                         (rs @ [\<lparr>reservation_id = new_id, res_hotel_id = hid,
                                 res_customer_id = cid, rooms = n, status = ''active''\<rparr>]))
                      (\<lambda>_. io_return
                         (Some \<lparr>reservation_id = new_id, res_hotel_id = hid,
                                 res_customer_id = cid, rooms = n, status = ''active''\<rparr>))
                      w1))"
  using assms
  by (simp add: create_reservation_def io_simps Let_def split: option.splits)

lemma delete_hotel_apply:
  assumes "load_all py w = (Inr (hs, cs, rs), w1)"
  shows "delete_hotel py hid w =
     (if list_ex (\<lambda>r. res_hotel_id r = hid \<and> status r = ''active'') rs
      then (Inr False, w1\<lparr>trace := trace w1 @ [Log (Cannot_delete_hotel hid)]\<rparr>)
      else if length (filter (\<lambda>h. hotel_id h \<noteq> hid) hs) = length hs
      then (Inr False, w1\<lparr>trace := trace w1 @ [Log (Hotel_not_found hid)]\<rparr>)
      else io_bind (save_all py (filter (\<lambda>h. hotel_id h \<noteq> hid) hs) cs rs)
             (\<lambda>_. io_return True) w1)"
  using assms by (simp add: delete_hotel_def io_simps Let_def)

lemma delete_customer_apply:
  assumes "load_all py w = (Inr (hs, cs, rs), w1)"
  shows "delete_customer py cid w =
     (if list_ex (\<lambda>r. res_customer_id r = cid \<and> status r = ''active'') rs
      then (Inr False, w1\<lparr>trace := trace w1 @ [Log (Cannot_delete_customer cid)]\<rparr>)
      else if length (filter (\<lambda>c. customer_id c \<noteq> cid) cs) = length cs
      then (Inr False, w1\<lparr>trace := trace w1 @ [Log (Customer_not_found cid)]\<rparr>)
      else io_bind (save_all py hs (filter (\<lambda>c. customer_id c \<noteq> cid) cs) rs)
             (\<lambda>_. io_return True) w1)"
  using assms by (simp add: delete_customer_def io_simps Let_def)

lemma available_rooms_skip:
  "status r \<noteq> ''active'' \<Longrightarrow>
   hotel_available_rooms h (xs @ r # ys) = hotel_available_rooms h (xs @ ys)"
  by (simp add: hotel_available_rooms_def)

lemma create_reservation_nonpositive:
  "int_value n \<le> 0 \<Longrightarrow> create_reservation py new_id hid cid n w =
     (Inr None, w\<lparr>trace := trace w @ [Log Rooms_must_be_positive]\<rparr>)"
  by (simp add: create_reservation_def io_simps)

lemma delete_hotel_saves:
  assumes load: "load_all py w = (Inr (hs, cs, rs), w1)"
    and ex: "\<exists>h\<in>set hs. hotel_id h = hid"
    and no: "\<forall>r\<in>set rs. res_hotel_id r = hid \<longrightarrow> status r \<noteq> ''active''"
  shows "delete_hotel py hid w =
     io_bind (save_all py (filter (\<lambda>h. hotel_id h \<noteq> hid) hs) cs rs) (\<lambda>_. io_return True) w1"
proof -
  from no have g: "\<not> list_ex (\<lambda>r. res_hotel_id r = hid \<and> status r = ''active'') rs"
    by (auto simp: list_ex_set)
  from ex have n: "length (filter (\<lambda>h. hotel_id h \<noteq> hid) hs) \<noteq> length hs"
    by (simp add: length_filter_eq)
  show ?thesis by (simp add: delete_hotel_apply [OF load] g n)
qed

lemma delete_customer_saves:
  assumes load: "load_all py w = (Inr (hs, cs, rs), w1)"
    and ex: "\<exists>c\<in>set cs. customer_id c = cid"
    and no: "\<forall>r\<in>set rs. res_customer_id r = cid \<longrightarrow> status r \<noteq> ''active''"
  shows "delete_customer py cid w =
     io_bind (save_all py hs (filter (\<lambda>c. customer_id c \<noteq> cid) cs) rs) (\<lambda>_. io_return True) w1"
proof -
  from no have g: "\<not> list_ex (\<lambda>r. res_customer_id r = cid \<and> status r = ''active'') rs"
    by (auto simp: list_ex_set)
  from ex have n: "length (filter (\<lambda>c. customer_id c \<noteq> cid) cs) \<noteq> length cs"
    by (simp add: length_filter_eq)
  show ?thesis by (simp add: delete_customer_apply [OF load] g n)
qed

lemma saved_then_true:
  assumes load: "load_all py w = (Inr (hs, cs, rs), w1)"
    and ok: "can_save_all py hs' cs' rs"
  shows "fst (io_bind (save_all py hs' cs' rs) (\<lambda>_. io_return True) w1) = Inr True
     \<and> fst (load_all py (snd (io_bind (save_all py hs' cs' rs) (\<lambda>_. io_return True) w1))) =
         Inr (hs', cs', rs)"
  using load_all_after_save [OF ok, of w1] load_all_rooms [OF load]
  by (simp add: io_bind_apply io_return_apply save_all_ok [OF ok])

lemma can_save_samples:
  assumes "s \<noteq> lone_surrogate"
  shows "can_save_all py0 [] [isaac] [booking n s]"
    and "can_save_all py0 [azure_inn] [] [booking n s]"
    and "can_save_all py0 [azure_inn] [isaac] [booking n s]"
  using assms
  by (simp_all add: can_save_all_def can_save_def py0_def azure_inn_def isaac_def booking_def
      Hotel_to_dict_def Customer_to_dict_def Reservation_to_dict_def lone_surrogate_def)

lemma save_all_bad_customer:
  assumes "can_save py (map Hotel_to_dict hs)"
    and "list_all (int_prints py) (concat (map json_ints (map Customer_to_dict cs)))"
    and "\<not> list_all (str_encodes py) (concat (map json_strs (map Customer_to_dict cs)))"
  shows "fst (io_bind (save_all py hs cs rs) f w) = Inl UnicodeEncodeError"
  using assms
  by (simp add: save_all_def save_hotels_def save_customers_def io_bind_apply
      save_raw_ok save_raw_unencodable)

lemma surrogate_customer:
  "can_save py0 (map Hotel_to_dict [])"
  "can_save py0 (map Hotel_to_dict [azure_inn])"
  "list_all (int_prints py0)
     (concat (map json_ints (map Customer_to_dict [isaac\<lparr>customer_name := lone_surrogate\<rparr>])))"
  "\<not> list_all (str_encodes py0)
     (concat (map json_strs (map Customer_to_dict [isaac\<lparr>customer_name := lone_surrogate\<rparr>])))"
  by (simp_all add: can_save_def py0_def Customer_to_dict_def Hotel_to_dict_def azure_inn_def
      lone_surrogate_def)

lemma find_customer:
  "\<exists>c\<in>set cs. customer_id c = cid \<Longrightarrow> \<exists>c. find (\<lambda>c. customer_id c = cid) cs = Some c"
  by (cases "find (\<lambda>c. customer_id c = cid) cs") (auto simp: find_None_iff)

lemma cancel_loop_apply:
  "cancel_loop rid rs updated found w =
     (Inr (updated @ map (\<lambda>x. if reservation_id x = rid then x\<lparr>status := ''cancelled''\<rparr> else x) rs,
           found \<or> list_ex (\<lambda>x. reservation_id x = rid) rs),
      w\<lparr>trace := trace w @
           map (\<lambda>x. Log (Already_cancelled rid))
             (filter (\<lambda>x. reservation_id x = rid \<and> status x = ''cancelled'') rs)\<rparr>)"
proof (induction rs arbitrary: updated found w)
  case Nil
  show ?case by (simp add: io_simps)
next
  case (Cons r rs)
  show ?case by (simp add: io_simps Cons.IH)
qed

lemma cancel_reservation_apply:
  assumes "load_all py w = (Inr (hs, cs, rs), w1)"
  shows "cancel_reservation py rid w =
     (let w2 = w1\<lparr>trace := trace w1 @
                  map (\<lambda>x. Log (Already_cancelled rid))
                    (filter (\<lambda>x. reservation_id x = rid \<and> status x = ''cancelled'') rs)\<rparr>
      in if list_ex (\<lambda>x. reservation_id x = rid) rs
         then io_bind
                (save_all py hs cs
                   (map (\<lambda>x. if reservation_id x = rid then x\<lparr>status := ''cancelled''\<rparr> else x)
                      rs))
                (\<lambda>_. io_return True) w2
         else (Inr False, w2\<lparr>trace := trace w2 @ [Log (Reservation_not_found rid)]\<rparr>))"
  using assms
  by (simp add: cancel_reservation_def io_bind_apply io_return_apply logging_error_apply
      cancel_loop_apply Let_def)

lemma writes_logs: "writes (map (\<lambda>x. Log (f x)) xs) = []"
  by (induction xs) simp_all

lemma cancel_keeps_rooms:
  assumes "map (\<lambda>r. r\<lparr>rooms := PyInt (int_value (rooms r))\<rparr>) rs = rs"
  shows "map (\<lambda>r. r\<lparr>rooms := PyInt (int_value (rooms r))\<rparr>)
           (map (\<lambda>x. if reservation_id x = rid then x\<lparr>status := ''cancelled''\<rparr> else x) rs) =
         map (\<lambda>x. if reservation_id x = rid then x\<lparr>status := ''cancelled''\<rparr> else x) rs"
  using assms
proof (induction rs)
  case Nil
  show ?case by simp
next
  case (Cons r rs)
  from Cons.prems have r: "r\<lparr>rooms := PyInt (int_value (rooms r))\<rparr> = r"
    and rest: "map (\<lambda>r. r\<lparr>rooms := PyInt (int_value (rooms r))\<rparr>) rs = rs"
    by simp_all
  from r have "rooms r = PyInt (int_value (rooms r))"
    by (metis reservation.select_convs(4) reservation.surjective reservation.update_convs(4))
  with Cons.IH [OF rest] show ?case by simp
qed

section \<open>Available rooms\<close>

text \<open>
  C5. For every hotel and every list of reservations, \<^verbatim>\<open>_hotel_available_rooms\<close> is the
  hotel's \<open>total_rooms\<close> minus the sum of \<open>rooms\<close> over exactly the reservations whose
  \<open>hotel_id\<close> is the hotel's and whose status is \<open>active\<close>; for a hotel with
  \<open>total_rooms = T\<close> and no reservations it is \<open>T\<close>.
\<close>

theorem available_rooms_formula:
  "hotel_available_rooms h rs =
     total_rooms h -
       (\<Sum>r\<leftarrow>filter (\<lambda>r. res_hotel_id r = hotel_id h \<and> status r = ''active'') rs.
          int_value (rooms r))
   \<and> hotel_available_rooms (h\<lparr>total_rooms := T\<rparr>) [] = T"
  by (simp add: hotel_available_rooms_def foldl_rooms)

section \<open>Loading\<close>

lemma load_raw_without_collection:
  assumes a: "content_of w k = Missing \<or> content_of w k = Malformed line col
           \<or> (content_of w k = Document d \<and> \<not> is_list d)"
  shows "fst (load_raw k w) = Inr [] \<and> unchanged w (snd (load_raw k w))"
proof -
  have u: "unchanged w (snd (load_raw k w))"
    by (rule load_raw_unchanged [of k w "fst (load_raw k w)"]) simp
  from a have "fst (load_raw k w) = Inr []"
    by (auto simp: load_raw_def io_simps is_list_def content_of_trace split: json.splits)
  with u show ?thesis by simp
qed

lemma load_raw_fault:
  assumes "content_of w k = Fault e"
  shows "load_raw k w = (Inl e, w\<lparr>trace := trace w @ [Read k]\<rparr>)"
  using assms by (simp add: load_raw_def io_simps content_of_trace)

text \<open>
  C6. \<^verbatim>\<open>_load_raw\<close> returns the empty list for a file that does not exist, for one
  on which \<^verbatim>\<open>json.loads\<close> raises \<^verbatim>\<open>JSONDecodeError\<close> and for one that holds a
  value that is not a list (the lemma above). It does not for every content that fails
  to parse: when the bytes are not UTF-8, \<^verbatim>\<open>read_text\<close> raises
  \<^verbatim>\<open>UnicodeDecodeError\<close>, which is no \<^verbatim>\<open>JSONDecodeError\<close>, and \<^verbatim>\<open>_load_raw\<close> and
  \<^verbatim>\<open>load_hotels\<close> raise it to the caller.
\<close>

theorem load_raw_raises:
  "load_raw Hotels latin1 = (Inl UnicodeDecodeError, latin1\<lparr>trace := [Read Hotels]\<rparr>)
   \<and> fst (load_hotels py latin1) = Inl UnicodeDecodeError"
proof -
  have c: "content_of latin1 Hotels = Fault UnicodeDecodeError"
    by (simp add: latin1_def content_of_def)
  have 1: "load_raw Hotels latin1 = (Inl UnicodeDecodeError, latin1\<lparr>trace := [Read Hotels]\<rparr>)"
    using load_raw_fault [OF c] by (simp add: latin1_def)
  then show ?thesis by (simp add: load_hotels_def io_bind_apply)
qed

text \<open>
  C7. A record whose construction fails is skipped and the others are kept. This fails
  for a record whose \<open>total_rooms\<close> is an infinite float (\<^verbatim>\<open>Infinity\<close> or
  \<^verbatim>\<open>1e999\<close> in the file): \<^verbatim>\<open>int\<close> raises \<^verbatim>\<open>OverflowError\<close>, which
  \<^verbatim>\<open>Hotel.from_dict\<close> does not catch, so \<^verbatim>\<open>load_hotels\<close> raises it and returns no
  hotel at all, the valid one before the record included.
\<close>

theorem load_hotels_overflow:
  "fst (load_hotels py
     (w\<lparr>hotels_json := Document (JArray
        [Hotel_to_dict h,
         JObject [(''hotel_id'', JStr ''h2''), (''name'', JStr ''Gran Via''),
                  (''city'', JStr ''Leon''), (''total_rooms'', JFloat PosInf)]])\<rparr>))
   = Inl OverflowError"
proof -
  have bad: "Hotel_of py (JObject [(''hotel_id'', JStr ''h2''), (''name'', JStr ''Gran Via''),
                  (''city'', JStr ''Leon''), (''total_rooms'', JFloat PosInf)]) = Inl OverflowError"
    by (simp add: Hotel_of_def and_then_def)
  show ?thesis
    by (simp add: load_hotels_def load_raw_def io_simps content_of_def Hotel_from_dict_def
        Hotel_of_to_dict bad handled_def)
qed

text \<open>
  As long as every failure is one that \<^verbatim>\<open>Hotel.from_dict\<close> catches, the loop does
  skip the failing records one by one and returns the others in their order.
\<close>

lemma load_loop_skips_handled:
  assumes "\<forall>row\<in>set rows. \<forall>e. Hotel_of py row = Inl e \<longrightarrow> handled e"
  shows "fst (load_loop (Hotel_from_dict py) rows acc w) =
     Inr (acc @ List.map_filter
                  (\<lambda>row. case Hotel_of py row of Inr h \<Rightarrow> Some h | Inl e \<Rightarrow> None) rows)"
  using assms
proof (induction rows arbitrary: acc w)
  case Nil
  show ?case by (simp add: io_simps List.map_filter_simps)
next
  case (Cons row rows)
  then have rest: "\<forall>row\<in>set rows. \<forall>e. Hotel_of py row = Inl e \<longrightarrow> handled e" by simp
  show ?case
  proof (cases "Hotel_of py row")
    case (Inl e)
    with Cons.prems have "handled e" by simp
    with Inl have step: "Hotel_from_dict py row w =
        (Inr None, w\<lparr>trace := trace w @ [Log (Invalid_hotel_record e)]\<rparr>)"
      by (simp add: Hotel_from_dict_def io_simps)
    from Inl show ?thesis
      by (simp add: io_bind_apply step List.map_filter_simps Cons.IH [OF rest])
  next
    case (Inr h)
    then have step: "Hotel_from_dict py row w = (Inr (Some h), w)"
      by (simp add: Hotel_from_dict_def io_simps)
    from Inr show ?thesis
      by (simp add: io_bind_apply step List.map_filter_simps Cons.IH [OF rest])
  qed
qed

section \<open>Saving what was loaded\<close>

text \<open>
  C8. Loading a collection that \<^verbatim>\<open>save\<close> wrote and saving the list just loaded
  should leave the file as it was. It does not after
  \<^verbatim>\<open>create_reservation(hotel_id, customer_id, True)\<close>: \<^verbatim>\<open>create_reservation\<close>
  stores the room count as it comes, where \<^verbatim>\<open>create_hotel\<close> and \<^verbatim>\<open>from_dict\<close>
  apply \<^verbatim>\<open>int\<close>, so the file holds \<^verbatim>\<open>"rooms": true\<close>; the load turns it into 1,
  and the next save writes \<^verbatim>\<open>"rooms": 1\<close>.
\<close>

theorem true_rooms_not_fixed_point:
  "reservations_json
     (snd (create_reservation py0 ''r1'' ''h1'' ''c1'' (PyBool True)
             (stored [azure_inn] [isaac] []))) =
     Document (JArray [JObject
       [(''reservation_id'', JStr ''r1''), (''hotel_id'', JStr ''h1''),
        (''customer_id'', JStr ''c1''), (''rooms'', JBool True),
        (''status'', JStr ''active'')]])
   \<and> reservations_json
       (snd (io_bind (load_reservations py0) (save_reservations py0)
          (snd (create_reservation py0 ''r1'' ''h1'' ''c1'' (PyBool True)
                  (stored [azure_inn] [isaac] []))))) =
     Document (JArray [JObject
       [(''reservation_id'', JStr ''r1''), (''hotel_id'', JStr ''h1''),
        (''customer_id'', JStr ''c1''), (''rooms'', JInt 1),
        (''status'', JStr ''active'')]])"
proof -
  let ?res = "\<lparr>reservation_id = ''r1'', res_hotel_id = ''h1'', res_customer_id = ''c1'',
               rooms = PyBool True, status = ''active''\<rparr>"
  let ?w1 = "(stored [azure_inn] [isaac] [])
               \<lparr>trace := [Read Hotels, Read Customers, Read Reservations]\<rparr>"
  have ok: "can_save_all py0 [azure_inn] [isaac] [?res]"
    by (simp add: can_save_all_def can_save_def py0_def azure_inn_def isaac_def
        Hotel_to_dict_def Customer_to_dict_def Reservation_to_dict_def lone_surrogate_def)
  have a: "hotel_available_rooms azure_inn [] = 5"
    by (simp add: hotel_available_rooms_def azure_inn_def)
  have run: "create_reservation py0 ''r1'' ''h1'' ''c1'' (PyBool True)
        (stored [azure_inn] [isaac] []) =
      (Inr (Some ?res), snd (save_all py0 [azure_inn] [isaac] [?res] ?w1))"
    by (simp add: create_reservation_apply [OF load_all_no_booking] a
        io_bind_apply io_return_apply save_all_ok [OF ok])
      (simp add: azure_inn_def isaac_def)
  have doc: "reservations_json (snd (save_all py0 [azure_inn] [isaac] [?res] ?w1)) =
      Document (JArray (map Reservation_to_dict [?res]))"
    by (simp add: save_all_ok [OF ok])
  have ok1: "can_save py0 (map Reservation_to_dict [?res\<lparr>rooms := PyInt 1\<rparr>])"
    by (simp add: can_save_def py0_def Reservation_to_dict_def lone_surrogate_def)
  have again: "reservations_json
       (snd (io_bind (load_reservations py0) (save_reservations py0)
          (snd (save_all py0 [azure_inn] [isaac] [?res] ?w1)))) =
      Document (JArray (map Reservation_to_dict [?res\<lparr>rooms := PyInt 1\<rparr>]))"
    using save_raw_ok [OF ok1]
    by (simp add: io_bind_apply load_reservations_saved [OF doc] save_reservations_def
        write_text_def)
  show ?thesis
    unfolding run using doc again by (simp add: Reservation_to_dict_def)
qed

section \<open>Deleting hotels and customers\<close>

text \<open>
  C4, as the code has it. When the three collections load: a hotel (a customer) that a
  reservation with status \<open>active\<close> references is not deleted, \<^verbatim>\<open>delete_hotel\<close>
  (\<^verbatim>\<open>delete_customer\<close>) returns \<open>False\<close>, the three files keep their content and
  nothing is written. A stored hotel (customer) whose reservations all have status
  \<open>cancelled\<close> is deleted, provided the three collections to write can be written: the
  call returns \<open>True\<close>, and loading afterwards gives the hotels (customers) without the
  ones of that identifier, the other two collections as they were.
\<close>

theorem delete_refused_while_active:
  assumes load: "load_all py w = (Inr (hs, cs, rs), w1)"
  shows "((\<exists>r\<in>set rs. res_hotel_id r = hid \<and> status r = ''active'') \<longrightarrow>
            fst (delete_hotel py hid w) = Inr False \<and> unchanged w (snd (delete_hotel py hid w)))
       \<and> ((\<exists>r\<in>set rs. res_customer_id r = cid \<and> status r = ''active'') \<longrightarrow>
            fst (delete_customer py cid w) = Inr False
            \<and> unchanged w (snd (delete_customer py cid w)))
       \<and> ((\<exists>h\<in>set hs. hotel_id h = hid)
            \<and> (\<forall>r\<in>set rs. res_hotel_id r = hid \<longrightarrow> status r = ''cancelled'')
            \<and> can_save_all py (filter (\<lambda>h. hotel_id h \<noteq> hid) hs) cs rs \<longrightarrow>
            fst (delete_hotel py hid w) = Inr True
            \<and> fst (load_all py (snd (delete_hotel py hid w))) =
                Inr (filter (\<lambda>h. hotel_id h \<noteq> hid) hs, cs, rs))
       \<and> ((\<exists>c\<in>set cs. customer_id c = cid)
            \<and> (\<forall>r\<in>set rs. res_customer_id r = cid \<longrightarrow> status r = ''cancelled'')
            \<and> can_save_all py hs (filter (\<lambda>c. customer_id c \<noteq> cid) cs) rs \<longrightarrow>
            fst (delete_customer py cid w) = Inr True
            \<and> fst (load_all py (snd (delete_customer py cid w))) =
                Inr (hs, filter (\<lambda>c. customer_id c \<noteq> cid) cs, rs))"
proof -
  note u = load_all_unchanged [OF load]
  have 1: "fst (delete_hotel py hid w) = Inr False \<and> unchanged w (snd (delete_hotel py hid w))"
    if "\<exists>r\<in>set rs. res_hotel_id r = hid \<and> status r = ''active''"
    using that u by (simp add: delete_hotel_apply [OF load] list_ex_set unchanged_then_log)
  have 2: "fst (delete_customer py cid w) = Inr False
      \<and> unchanged w (snd (delete_customer py cid w))"
    if "\<exists>r\<in>set rs. res_customer_id r = cid \<and> status r = ''active''"
    using that u by (simp add: delete_customer_apply [OF load] list_ex_set unchanged_then_log)
  have 3: "fst (delete_hotel py hid w) = Inr True
      \<and> fst (load_all py (snd (delete_hotel py hid w))) =
          Inr (filter (\<lambda>h. hotel_id h \<noteq> hid) hs, cs, rs)"
    if "\<exists>h\<in>set hs. hotel_id h = hid"
      and "\<forall>r\<in>set rs. res_hotel_id r = hid \<longrightarrow> status r = ''cancelled''"
      and ok: "can_save_all py (filter (\<lambda>h. hotel_id h \<noteq> hid) hs) cs rs"
  proof -
    from that(2) have "\<forall>r\<in>set rs. res_hotel_id r = hid \<longrightarrow> status r \<noteq> ''active''" by auto
    from delete_hotel_saves [OF load that(1) this] saved_then_true [OF load ok]
    show ?thesis by simp
  qed
  have 4: "fst (delete_customer py cid w) = Inr True
      \<and> fst (load_all py (snd (delete_customer py cid w))) =
          Inr (hs, filter (\<lambda>c. customer_id c \<noteq> cid) cs, rs)"
    if "\<exists>c\<in>set cs. customer_id c = cid"
      and "\<forall>r\<in>set rs. res_customer_id r = cid \<longrightarrow> status r = ''cancelled''"
      and ok: "can_save_all py hs (filter (\<lambda>c. customer_id c \<noteq> cid) cs) rs"
  proof -
    from that(2) have "\<forall>r\<in>set rs. res_customer_id r = cid \<longrightarrow> status r \<noteq> ''active''" by auto
    from delete_customer_saves [OF load that(1) this] saved_then_true [OF load ok]
    show ?thesis by simp
  qed
  from 1 2 3 4 show ?thesis by blast
qed

theorem delete_refused_while_active_witness:
  "fst (delete_hotel py0 ''h1'' (stored [azure_inn] [isaac] [booking 1 ''active''])) = Inr False
   \<and> fst (delete_customer py0 ''c1'' (stored [azure_inn] [isaac] [booking 1 ''active''])) = Inr False
   \<and> fst (delete_hotel py0 ''h1'' (stored [azure_inn] [isaac] [booking 1 ''cancelled''])) = Inr True
   \<and> fst (delete_customer py0 ''c1'' (stored [azure_inn] [isaac] [booking 1 ''cancelled''])) = Inr True"
  using
    delete_refused_while_active [OF load_all_booking [where hs = "[azure_inn]" and cs = "[isaac]"
      and n = 1 and s = "''active''" and py = py0], where hid = "''h1''" and cid = "''c1''"]
    delete_refused_while_active [OF load_all_booking [where hs = "[azure_inn]" and cs = "[isaac]"
      and n = 1 and s = "''cancelled''" and py = py0], where hid = "''h1''" and cid = "''c1''"]
    can_save_samples [of "''cancelled''" 1]
  by (simp add: azure_inn_def isaac_def booking_def lone_surrogate_def)

text \<open>
  Without that proviso the delete does not succeed: with a customer whose name holds a
  lone surrogate in the file, \<^verbatim>\<open>delete_hotel\<close> on a hotel that only a cancelled
  reservation references raises \<^verbatim>\<open>UnicodeEncodeError\<close> while it writes the customers.
\<close>

theorem delete_raises_on_surrogate:
  "fst (load_all py0
          (stored [azure_inn] [isaac\<lparr>customer_name := lone_surrogate\<rparr>] [booking 1 ''cancelled''])) =
     Inr ([azure_inn], [isaac\<lparr>customer_name := lone_surrogate\<rparr>], [booking 1 ''cancelled''])
   \<and> status (booking 1 ''cancelled'') = ''cancelled''
   \<and> fst (delete_hotel py0 ''h1''
          (stored [azure_inn] [isaac\<lparr>customer_name := lone_surrogate\<rparr>] [booking 1 ''cancelled''])) =
     Inl UnicodeEncodeError"
proof -
  have 3: "fst (delete_hotel py0 ''h1''
          (stored [azure_inn] [isaac\<lparr>customer_name := lone_surrogate\<rparr>] [booking 1 ''cancelled''])) =
     Inl UnicodeEncodeError"
    using surrogate_customer
    by (subst delete_hotel_apply [OF load_all_booking])
      (simp add: booking_def azure_inn_def save_all_bad_customer)
  have 1: "fst (load_all py0
          (stored [azure_inn] [isaac\<lparr>customer_name := lone_surrogate\<rparr>] [booking 1 ''cancelled''])) =
     Inr ([azure_inn], [isaac\<lparr>customer_name := lone_surrogate\<rparr>], [booking 1 ''cancelled''])"
    by (simp add: load_all_booking)
  have 2: "status (booking 1 ''cancelled'') = ''cancelled''"
    by (simp add: booking_def)
  from 1 2 3 show ?thesis by blast
qed

text \<open>
  C10. When the three collections load and no stored hotel has the identifier, but a
  reservation with status \<open>active\<close> references it, \<^verbatim>\<open>delete_hotel\<close> returns
  \<open>False\<close> on the guard of the active reservations, whose message it logs, and writes
  nothing; the check that the hotel exists comes second, and logs its own message only
  when no active reservation references the identifier. The same holds for
  \<^verbatim>\<open>delete_customer\<close>.
\<close>

theorem dangling_reference_guard_first:
  assumes load: "load_all py w = (Inr (hs, cs, rs), w1)"
  shows "((\<forall>h\<in>set hs. hotel_id h \<noteq> hid)
            \<and> (\<exists>r\<in>set rs. res_hotel_id r = hid \<and> status r = ''active'') \<longrightarrow>
            delete_hotel py hid w =
              (Inr False, w1\<lparr>trace := trace w1 @ [Log (Cannot_delete_hotel hid)]\<rparr>)
            \<and> unchanged w (snd (delete_hotel py hid w)))
       \<and> ((\<forall>h\<in>set hs. hotel_id h \<noteq> hid)
            \<and> \<not> (\<exists>r\<in>set rs. res_hotel_id r = hid \<and> status r = ''active'') \<longrightarrow>
            delete_hotel py hid w =
              (Inr False, w1\<lparr>trace := trace w1 @ [Log (Hotel_not_found hid)]\<rparr>))
       \<and> ((\<forall>c\<in>set cs. customer_id c \<noteq> cid)
            \<and> (\<exists>r\<in>set rs. res_customer_id r = cid \<and> status r = ''active'') \<longrightarrow>
            delete_customer py cid w =
              (Inr False, w1\<lparr>trace := trace w1 @ [Log (Cannot_delete_customer cid)]\<rparr>)
            \<and> unchanged w (snd (delete_customer py cid w)))
       \<and> ((\<forall>c\<in>set cs. customer_id c \<noteq> cid)
            \<and> \<not> (\<exists>r\<in>set rs. res_customer_id r = cid \<and> status r = ''active'') \<longrightarrow>
            delete_customer py cid w =
              (Inr False, w1\<lparr>trace := trace w1 @ [Log (Customer_not_found cid)]\<rparr>))"
proof -
  note u = load_all_unchanged [OF load]
  have h: "length (filter (\<lambda>h. hotel_id h \<noteq> hid) hs) = length hs"
    if "\<forall>h\<in>set hs. hotel_id h \<noteq> hid"
    using that by (simp add: length_filter_eq)
  have c: "length (filter (\<lambda>c. customer_id c \<noteq> cid) cs) = length cs"
    if "\<forall>c\<in>set cs. customer_id c \<noteq> cid"
    using that by (simp add: length_filter_eq)
  have 1: "delete_hotel py hid w =
        (Inr False, w1\<lparr>trace := trace w1 @ [Log (Cannot_delete_hotel hid)]\<rparr>)
      \<and> unchanged w (snd (delete_hotel py hid w))"
    if "\<exists>r\<in>set rs. res_hotel_id r = hid \<and> status r = ''active''"
    using that u by (simp add: delete_hotel_apply [OF load] list_ex_set unchanged_then_log)
  have 2: "delete_hotel py hid w =
        (Inr False, w1\<lparr>trace := trace w1 @ [Log (Hotel_not_found hid)]\<rparr>)"
    if "\<forall>h\<in>set hs. hotel_id h \<noteq> hid"
      and "\<not> (\<exists>r\<in>set rs. res_hotel_id r = hid \<and> status r = ''active'')"
  proof -
    from that(2) have g: "\<not> list_ex (\<lambda>r. res_hotel_id r = hid \<and> status r = ''active'') rs"
      by (simp add: list_ex_set)
    show ?thesis by (simp add: delete_hotel_apply [OF load] g h [OF that(1)])
  qed
  have 3: "delete_customer py cid w =
        (Inr False, w1\<lparr>trace := trace w1 @ [Log (Cannot_delete_customer cid)]\<rparr>)
      \<and> unchanged w (snd (delete_customer py cid w))"
    if "\<exists>r\<in>set rs. res_customer_id r = cid \<and> status r = ''active''"
    using that u by (simp add: delete_customer_apply [OF load] list_ex_set unchanged_then_log)
  have 4: "delete_customer py cid w =
        (Inr False, w1\<lparr>trace := trace w1 @ [Log (Customer_not_found cid)]\<rparr>)"
    if "\<forall>c\<in>set cs. customer_id c \<noteq> cid"
      and "\<not> (\<exists>r\<in>set rs. res_customer_id r = cid \<and> status r = ''active'')"
  proof -
    from that(2)
    have g: "\<not> list_ex (\<lambda>r. res_customer_id r = cid \<and> status r = ''active'') rs"
      by (simp add: list_ex_set)
    show ?thesis by (simp add: delete_customer_apply [OF load] g c [OF that(1)])
  qed
  from 1 2 3 4 show ?thesis by blast
qed

theorem dangling_reference_guard_first_witness:
  "delete_hotel py0 ''h1'' (stored [] [] [booking 1 ''active'']) =
     (Inr False, (stored [] [] [booking 1 ''active''])
        \<lparr>trace := [Read Hotels, Read Customers, Read Reservations,
                   Log (Cannot_delete_hotel ''h1'')]\<rparr>)
   \<and> delete_hotel py0 ''h1'' (stored [] [] [booking 1 ''cancelled'']) =
     (Inr False, (stored [] [] [booking 1 ''cancelled''])
        \<lparr>trace := [Read Hotels, Read Customers, Read Reservations,
                   Log (Hotel_not_found ''h1'')]\<rparr>)
   \<and> delete_customer py0 ''c1'' (stored [] [] [booking 1 ''active'']) =
     (Inr False, (stored [] [] [booking 1 ''active''])
        \<lparr>trace := [Read Hotels, Read Customers, Read Reservations,
                   Log (Cannot_delete_customer ''c1'')]\<rparr>)
   \<and> delete_customer py0 ''c1'' (stored [] [] [booking 1 ''cancelled'']) =
     (Inr False, (stored [] [] [booking 1 ''cancelled''])
        \<lparr>trace := [Read Hotels, Read Customers, Read Reservations,
                   Log (Customer_not_found ''c1'')]\<rparr>)"
  using
    dangling_reference_guard_first [OF load_all_booking [where hs = "[]" and cs = "[]"
        and n = 1 and s = "''active''" and py = py0], where hid = "''h1''" and cid = "''c1''"]
    dangling_reference_guard_first [OF load_all_booking [where hs = "[]" and cs = "[]"
        and n = 1 and s = "''cancelled''" and py = py0], where hid = "''h1''" and cid = "''c1''"]
  by (simp add: booking_def)

section \<open>Reservations with another status\<close>

text \<open>
  C9. \<^verbatim>\<open>Reservation.from_dict\<close> accepts a record with any string as its status (the
  other fields being present, and \<open>rooms\<close> an integer for \<^verbatim>\<open>int\<close>). A reservation
  whose status is not the string \<open>active\<close>, such as \<open>Active\<close> or \<open>done\<close>, does not
  count in the available rooms. It does not block a delete either: when only such
  reservations reference a stored hotel (customer), \<^verbatim>\<open>delete_hotel\<close>
  (\<^verbatim>\<open>delete_customer\<close>) goes on to write the collections without the records of that
  identifier and to return \<open>True\<close>; when these can be written, it returns \<open>True\<close> and
  loading afterwards gives the hotels (customers) without the ones of that identifier.
\<close>

theorem other_status_not_active:
  "(map_of kvs ''reservation_id'' = Some a \<and> map_of kvs ''hotel_id'' = Some b
      \<and> map_of kvs ''customer_id'' = Some c \<and> map_of kvs ''rooms'' = Some d
      \<and> py_int py d = Inr n \<and> map_of kvs ''status'' = Some (JStr s) \<longrightarrow>
      Reservation_from_dict py (JObject kvs) w =
        (Inr (Some \<lparr>reservation_id = py_str py a, res_hotel_id = py_str py b,
                    res_customer_id = py_str py c, rooms = PyInt n, status = s\<rparr>), w))
   \<and> (status r \<noteq> ''active'' \<longrightarrow>
        hotel_available_rooms h (xs @ r # ys) = hotel_available_rooms h (xs @ ys))
   \<and> (load_all py w = (Inr (hs, cs, rs), w1) \<and> (\<exists>h\<in>set hs. hotel_id h = hid)
        \<and> (\<forall>r\<in>set rs. res_hotel_id r = hid \<longrightarrow> status r \<noteq> ''active'') \<longrightarrow>
        delete_hotel py hid w =
          io_bind (save_all py (filter (\<lambda>h. hotel_id h \<noteq> hid) hs) cs rs)
            (\<lambda>_. io_return True) w1
        \<and> (can_save_all py (filter (\<lambda>h. hotel_id h \<noteq> hid) hs) cs rs \<longrightarrow>
             fst (delete_hotel py hid w) = Inr True
             \<and> fst (load_all py (snd (delete_hotel py hid w))) =
                 Inr (filter (\<lambda>h. hotel_id h \<noteq> hid) hs, cs, rs)))
   \<and> (load_all py w = (Inr (hs, cs, rs), w1) \<and> (\<exists>c\<in>set cs. customer_id c = cid)
        \<and> (\<forall>r\<in>set rs. res_customer_id r = cid \<longrightarrow> status r \<noteq> ''active'') \<longrightarrow>
        delete_customer py cid w =
          io_bind (save_all py hs (filter (\<lambda>c. customer_id c \<noteq> cid) cs) rs)
            (\<lambda>_. io_return True) w1
        \<and> (can_save_all py hs (filter (\<lambda>c. customer_id c \<noteq> cid) cs) rs \<longrightarrow>
             fst (delete_customer py cid w) = Inr True
             \<and> fst (load_all py (snd (delete_customer py cid w))) =
                 Inr (hs, filter (\<lambda>c. customer_id c \<noteq> cid) cs, rs)))"
proof -
  have 1: "Reservation_from_dict py (JObject kvs) w =
        (Inr (Some \<lparr>reservation_id = py_str py a, res_hotel_id = py_str py b,
                    res_customer_id = py_str py c, rooms = PyInt n, status = s\<rparr>), w)"
    if "map_of kvs ''reservation_id'' = Some a" "map_of kvs ''hotel_id'' = Some b"
      "map_of kvs ''customer_id'' = Some c" "map_of kvs ''rooms'' = Some d"
      "py_int py d = Inr n" "map_of kvs ''status'' = Some (JStr s)"
    using that
    by (simp add: Reservation_from_dict_def Reservation_of_def and_then_def io_simps py_str_def)
  have 3: "delete_hotel py hid w =
          io_bind (save_all py (filter (\<lambda>h. hotel_id h \<noteq> hid) hs) cs rs)
            (\<lambda>_. io_return True) w1
        \<and> (can_save_all py (filter (\<lambda>h. hotel_id h \<noteq> hid) hs) cs rs \<longrightarrow>
             fst (delete_hotel py hid w) = Inr True
             \<and> fst (load_all py (snd (delete_hotel py hid w))) =
                 Inr (filter (\<lambda>h. hotel_id h \<noteq> hid) hs, cs, rs))"
    if load: "load_all py w = (Inr (hs, cs, rs), w1)" and ex: "\<exists>h\<in>set hs. hotel_id h = hid"
      and no: "\<forall>r\<in>set rs. res_hotel_id r = hid \<longrightarrow> status r \<noteq> ''active''"
    using delete_hotel_saves [OF load ex no] saved_then_true [OF load] by simp
  have 4: "delete_customer py cid w =
          io_bind (save_all py hs (filter (\<lambda>c. customer_id c \<noteq> cid) cs) rs)
            (\<lambda>_. io_return True) w1
        \<and> (can_save_all py hs (filter (\<lambda>c. customer_id c \<noteq> cid) cs) rs \<longrightarrow>
             fst (delete_customer py cid w) = Inr True
             \<and> fst (load_all py (snd (delete_customer py cid w))) =
                 Inr (hs, filter (\<lambda>c. customer_id c \<noteq> cid) cs, rs))"
    if load: "load_all py w = (Inr (hs, cs, rs), w1)" and ex: "\<exists>c\<in>set cs. customer_id c = cid"
      and no: "\<forall>r\<in>set rs. res_customer_id r = cid \<longrightarrow> status r \<noteq> ''active''"
    using delete_customer_saves [OF load ex no] saved_then_true [OF load] by simp
  from 1 3 4 available_rooms_skip [of r h xs ys] show ?thesis by blast
qed

theorem other_status_not_active_witness:
  "Reservation_from_dict py0 (Reservation_to_dict (booking 2 ''Active'')) (stored [] [] []) =
     (Inr (Some (booking 2 ''Active'')), stored [] [] [])
   \<and> hotel_available_rooms azure_inn [booking 2 ''done''] = 5
   \<and> fst (delete_hotel py0 ''h1'' (stored [azure_inn] [isaac] [booking 2 ''done''])) = Inr True
   \<and> fst (load_all py0
        (snd (delete_hotel py0 ''h1'' (stored [azure_inn] [isaac] [booking 2 ''done''])))) =
       Inr ([], [isaac], [booking 2 ''done''])
   \<and> fst (delete_customer py0 ''c1'' (stored [azure_inn] [isaac] [booking 2 ''done''])) = Inr True
   \<and> fst (load_all py0
        (snd (delete_customer py0 ''c1'' (stored [azure_inn] [isaac] [booking 2 ''done''])))) =
       Inr ([azure_inn], [], [booking 2 ''done''])"
proof -
  note t = other_status_not_active [where py = py0 and hid = "''h1''" and cid = "''c1''"
      and hs = "[azure_inn]" and cs = "[isaac]" and rs = "[booking 2 ''done'']"
      and w = "stored [azure_inn] [isaac] [booking 2 ''done'']"
      and ?w1.0 = "(stored [azure_inn] [isaac] [booking 2 ''done''])
          \<lparr>trace := [Read Hotels, Read Customers, Read Reservations]\<rparr>"
      and r = "booking 2 ''done''" and h = azure_inn and xs = "[]" and ys = "[]"]
  note t' = other_status_not_active [where py = py0
      and kvs = "[(''reservation_id'', JStr ''r1''), (''hotel_id'', JStr ''h1''),
         (''customer_id'', JStr ''c1''), (''rooms'', JInt 2), (''status'', JStr ''Active'')]"
      and a = "JStr ''r1''" and b = "JStr ''h1''" and c = "JStr ''c1''" and d = "JInt 2"
      and n = 2 and s = "''Active''" and w = "stored [] [] []"]
  have a: "hotel_available_rooms azure_inn [] = 5"
    by (simp add: hotel_available_rooms_def azure_inn_def)
  have nd: "''done'' \<noteq> lone_surrogate" by (simp add: lone_surrogate_def)
  note ok = can_save_samples [OF nd, of 2]
  have 1: "Reservation_from_dict py0 (Reservation_to_dict (booking 2 ''Active'')) (stored [] [] []) =
     (Inr (Some (booking 2 ''Active'')), stored [] [] [])"
    using t' by (simp add: Reservation_to_dict_def booking_def py_str_def)
  have 2: "hotel_available_rooms azure_inn [booking 2 ''done''] = 5"
    using t a by (simp add: booking_def)
  have L: "load_all py0 (stored [azure_inn] [isaac] [booking 2 ''done'']) =
      (Inr ([azure_inn], [isaac], [booking 2 ''done'']),
       (stored [azure_inn] [isaac] [booking 2 ''done''])
          \<lparr>trace := [Read Hotels, Read Customers, Read Reservations]\<rparr>)"
    by (rule load_all_booking)
  have N: "\<forall>r\<in>set [booking 2 ''done'']. res_hotel_id r = ''h1'' \<longrightarrow> status r \<noteq> ''active''"
    "\<forall>r\<in>set [booking 2 ''done'']. res_customer_id r = ''c1'' \<longrightarrow> status r \<noteq> ''active''"
    by (simp_all add: booking_def)
  have E: "\<exists>h\<in>set [azure_inn]. hotel_id h = ''h1''" "\<exists>c\<in>set [isaac]. customer_id c = ''c1''"
    by (simp_all add: azure_inn_def isaac_def)
  have F: "filter (\<lambda>h. hotel_id h \<noteq> ''h1'') [azure_inn] = []"
    "filter (\<lambda>c. customer_id c \<noteq> ''c1'') [isaac] = []"
    by (simp_all add: azure_inn_def isaac_def)
  from t L E N
  have "can_save_all py0 (filter (\<lambda>h. hotel_id h \<noteq> ''h1'') [azure_inn]) [isaac]
          [booking 2 ''done''] \<longrightarrow>
      fst (delete_hotel py0 ''h1'' (stored [azure_inn] [isaac] [booking 2 ''done''])) = Inr True
      \<and> fst (load_all py0
          (snd (delete_hotel py0 ''h1'' (stored [azure_inn] [isaac] [booking 2 ''done''])))) =
        Inr (filter (\<lambda>h. hotel_id h \<noteq> ''h1'') [azure_inn], [isaac], [booking 2 ''done''])"
    by blast
  with ok(1) have 3: "fst (delete_hotel py0 ''h1'' (stored [azure_inn] [isaac] [booking 2 ''done''])) = Inr True
     \<and> fst (load_all py0
        (snd (delete_hotel py0 ''h1'' (stored [azure_inn] [isaac] [booking 2 ''done''])))) =
       Inr ([], [isaac], [booking 2 ''done''])"
    by (simp only: F)
  from t L E N
  have "can_save_all py0 [azure_inn] (filter (\<lambda>c. customer_id c \<noteq> ''c1'') [isaac])
          [booking 2 ''done''] \<longrightarrow>
      fst (delete_customer py0 ''c1'' (stored [azure_inn] [isaac] [booking 2 ''done''])) = Inr True
      \<and> fst (load_all py0
          (snd (delete_customer py0 ''c1'' (stored [azure_inn] [isaac] [booking 2 ''done''])))) =
        Inr ([azure_inn], filter (\<lambda>c. customer_id c \<noteq> ''c1'') [isaac], [booking 2 ''done''])"
    by blast
  with ok(2) have 4: "fst (delete_customer py0 ''c1'' (stored [azure_inn] [isaac] [booking 2 ''done''])) = Inr True
     \<and> fst (load_all py0
        (snd (delete_customer py0 ''c1'' (stored [azure_inn] [isaac] [booking 2 ''done''])))) =
       Inr ([azure_inn], [], [booking 2 ''done''])"
    by (simp only: F)
  from 1 2 3 4 show ?thesis by simp
qed

section \<open>Creating and cancelling reservations\<close>

text \<open>
  C1, as the code has it. When the three collections load, \<open>h\<close> is the hotel that the
  lookup by identifier finds and the customer is stored: a reservation for as many rooms
  as \<open>h\<close> has available is created, returned and found in the reservations on the next
  load, provided that number is positive and the collections with the new reservation can
  be written; when no room is available the call returns nothing and leaves the files
  as they are; a reservation for one room more than available returns nothing, and the
  files keep their content with nothing written.
\<close>

theorem reserve_all_available:
  assumes load: "load_all py w = (Inr (hs, cs, rs), w1)"
    and hotel: "find (\<lambda>h. hotel_id h = hid) hs = Some h"
    and customer: "\<exists>c\<in>set cs. customer_id c = cid"
  shows "(let a = hotel_available_rooms h rs;
              res = \<lparr>reservation_id = new_id, res_hotel_id = hid, res_customer_id = cid,
                     rooms = PyInt a, status = ''active''\<rparr>;
              out = create_reservation py new_id hid cid (PyInt a) w
          in (0 < a \<and> can_save_all py hs cs (rs @ [res]) \<longrightarrow>
                fst out = Inr (Some res)
                \<and> fst (load_all py (snd out)) = Inr (hs, cs, rs @ [res]))
             \<and> (a \<le> 0 \<longrightarrow> fst out = Inr None \<and> unchanged w (snd out)))
       \<and> (let out = create_reservation py new_id hid cid
                      (PyInt (hotel_available_rooms h rs + 1)) w
          in fst out = Inr None \<and> unchanged w (snd out))"
proof -
  note u = load_all_unchanged [OF load]
  from customer obtain c where c: "find (\<lambda>c. customer_id c = cid) cs = Some c"
    using find_customer by blast
  let ?a = "hotel_available_rooms h rs"
  let ?res = "\<lparr>reservation_id = new_id, res_hotel_id = hid, res_customer_id = cid,
                rooms = PyInt ?a, status = ''active''\<rparr>"
  let ?out = "create_reservation py new_id hid cid (PyInt ?a) w"
  have 1: "fst ?out = Inr (Some ?res) \<and> fst (load_all py (snd ?out)) = Inr (hs, cs, rs @ [?res])"
    if pos: "0 < ?a" and ok: "can_save_all py hs cs (rs @ [?res])"
  proof -
    from pos have p: "0 < int_value (PyInt ?a)" by simp
    have run: "?out = io_bind (save_all py hs cs (rs @ [?res])) (\<lambda>_. io_return (Some ?res)) w1"
      by (simp add: create_reservation_apply [OF load p] hotel c)
    have again: "fst (load_all py (snd (save_all py hs cs (rs @ [?res]) w1))) =
        Inr (hs, cs, rs @ [?res])"
      using load_all_after_save [OF ok, of w1] load_all_rooms [OF load] by simp
    show ?thesis
      using again by (simp add: run io_bind_apply io_return_apply save_all_ok [OF ok])
  qed
  have 2: "fst ?out = Inr None \<and> unchanged w (snd ?out)" if "?a \<le> 0"
    using that by (simp add: create_reservation_nonpositive unchanged_log)
  have 3: "let out = create_reservation py new_id hid cid (PyInt (?a + 1)) w
          in fst out = Inr None \<and> unchanged w (snd out)"
  proof (cases "0 < ?a + 1")
    case True
    then have p: "0 < int_value (PyInt (?a + 1))" by simp
    show ?thesis
      using u
      by (simp add: Let_def create_reservation_apply [OF load p] hotel c unchanged_then_log)
  next
    case False
    then have "int_value (PyInt (?a + 1)) \<le> 0" by simp
    then show ?thesis
      by (simp add: Let_def create_reservation_nonpositive unchanged_log)
  qed
  from 1 2 3 show ?thesis unfolding Let_def by blast
qed

theorem reserve_all_available_witness:
  "fst (create_reservation py0 ''r2'' ''h1'' ''c1'' (PyInt 3)
          (stored [azure_inn] [isaac] [booking 2 ''active'']))
     = Inr (Some \<lparr>reservation_id = ''r2'', res_hotel_id = ''h1'', res_customer_id = ''c1'',
                  rooms = PyInt 3, status = ''active''\<rparr>)
   \<and> fst (create_reservation py0 ''r2'' ''h1'' ''c1'' (PyInt 4)
          (stored [azure_inn] [isaac] [booking 2 ''active'']))
     = Inr None
   \<and> fst (create_reservation py0 ''r2'' ''h1'' ''c1'' (PyInt 0)
          (stored [azure_inn] [isaac] [booking 5 ''active'']))
     = Inr None"
proof -
  have a: "hotel_available_rooms azure_inn [booking 2 ''active''] = 3"
    "hotel_available_rooms azure_inn [booking 5 ''active''] = 0"
    by (simp_all add: hotel_available_rooms_def azure_inn_def booking_def)
  have f: "find (\<lambda>h. hotel_id h = ''h1'') [azure_inn] = Some azure_inn"
    by (simp add: azure_inn_def)
  have c: "\<exists>c\<in>set [isaac]. customer_id c = ''c1''"
    by (simp add: isaac_def)
  have ok: "can_save_all py0 [azure_inn] [isaac]
      ([booking 2 ''active''] @
       [\<lparr>reservation_id = ''r2'', res_hotel_id = ''h1'', res_customer_id = ''c1'',
         rooms = PyInt 3, status = ''active''\<rparr>])"
    by (simp add: can_save_all_def can_save_def py0_def azure_inn_def isaac_def booking_def
        Hotel_to_dict_def Customer_to_dict_def Reservation_to_dict_def lone_surrogate_def)
  show ?thesis
    using reserve_all_available [OF load_all_booking [where py = py0 and n = 2
          and s = "''active''"] f c, where new_id = "''r2''"]
      reserve_all_available [OF load_all_booking [where py = py0 and n = 5
          and s = "''active''"] f c, where new_id = "''r2''"] ok
    by (simp add: a Let_def)
qed

text \<open>
  Each proviso is needed. With no room available the request for the available rooms is
  a request for 0 rooms, which \<^verbatim>\<open>create_reservation\<close> turns down. With two stored
  hotels of one identifier the lookup finds the first, and a request for the rooms of
  the second is turned down. With a customer whose name holds a lone surrogate the
  write raises \<^verbatim>\<open>UnicodeEncodeError\<close>.
\<close>

theorem reserve_available_refused:
  "hotel_available_rooms azure_inn [booking 5 ''active''] = 0
   \<and> fst (load_all py0 (stored [azure_inn] [isaac] [booking 5 ''active''])) =
       Inr ([azure_inn], [isaac], [booking 5 ''active''])
   \<and> fst (create_reservation py0 ''r2'' ''h1'' ''c1'' (PyInt 0)
          (stored [azure_inn] [isaac] [booking 5 ''active''])) = Inr None
   \<and> hotel_available_rooms azure_inn [] = 5
   \<and> fst (load_all py0 (stored [azure_inn\<lparr>total_rooms := 1\<rparr>, azure_inn] [isaac] [])) =
       Inr ([azure_inn\<lparr>total_rooms := 1\<rparr>, azure_inn], [isaac], [])
   \<and> hotel_id azure_inn = ''h1''
   \<and> fst (create_reservation py0 ''r2'' ''h1'' ''c1'' (PyInt 5)
          (stored [azure_inn\<lparr>total_rooms := 1\<rparr>, azure_inn] [isaac] [])) = Inr None
   \<and> fst (load_all py0 (stored [azure_inn] [isaac\<lparr>customer_name := lone_surrogate\<rparr>] [])) =
       Inr ([azure_inn], [isaac\<lparr>customer_name := lone_surrogate\<rparr>], [])
   \<and> fst (create_reservation py0 ''r2'' ''h1'' ''c1'' (PyInt 5)
          (stored [azure_inn] [isaac\<lparr>customer_name := lone_surrogate\<rparr>] [])) =
       Inl UnicodeEncodeError"
proof -
  have p: "0 < int_value (PyInt 5)" by simp
  have 1: "hotel_available_rooms azure_inn [booking 5 ''active''] = 0"
    by (simp add: hotel_available_rooms_def azure_inn_def booking_def)
  have 2: "fst (load_all py0 (stored [azure_inn] [isaac] [booking 5 ''active''])) =
       Inr ([azure_inn], [isaac], [booking 5 ''active''])"
    by (simp add: load_all_booking)
  have 3: "fst (create_reservation py0 ''r2'' ''h1'' ''c1'' (PyInt 0)
          (stored [azure_inn] [isaac] [booking 5 ''active''])) = Inr None"
    by (simp add: create_reservation_nonpositive)
  have 4: "hotel_available_rooms azure_inn [] = 5"
    by (simp add: hotel_available_rooms_def azure_inn_def)
  have 5: "fst (load_all py0 (stored [azure_inn\<lparr>total_rooms := 1\<rparr>, azure_inn] [isaac] [])) =
       Inr ([azure_inn\<lparr>total_rooms := 1\<rparr>, azure_inn], [isaac], [])"
    by (simp add: load_all_no_booking)
  have 6: "hotel_id azure_inn = ''h1''" by (simp add: azure_inn_def)
  have 7: "fst (create_reservation py0 ''r2'' ''h1'' ''c1'' (PyInt 5)
          (stored [azure_inn\<lparr>total_rooms := 1\<rparr>, azure_inn] [isaac] [])) = Inr None"
    by (subst create_reservation_apply [OF load_all_no_booking p])
      (simp add: azure_inn_def isaac_def hotel_available_rooms_def)
  have 8: "fst (load_all py0 (stored [azure_inn] [isaac\<lparr>customer_name := lone_surrogate\<rparr>] [])) =
       Inr ([azure_inn], [isaac\<lparr>customer_name := lone_surrogate\<rparr>], [])"
    by (simp add: load_all_no_booking)
  have f: "find (\<lambda>h. hotel_id h = ''h1'') [azure_inn] = Some azure_inn"
    by (simp add: azure_inn_def)
  have c: "find (\<lambda>c. customer_id c = ''c1'') [isaac\<lparr>customer_name := lone_surrogate\<rparr>] =
      Some (isaac\<lparr>customer_name := lone_surrogate\<rparr>)"
    by (simp add: isaac_def)
  have 9: "fst (create_reservation py0 ''r2'' ''h1'' ''c1'' (PyInt 5)
          (stored [azure_inn] [isaac\<lparr>customer_name := lone_surrogate\<rparr>] [])) =
       Inl UnicodeEncodeError"
    using save_all_bad_customer [OF surrogate_customer(2) surrogate_customer(3)
        surrogate_customer(4)]
    by (subst create_reservation_apply [OF load_all_no_booking p])
      (simp add: azure_inn_def isaac_def hotel_available_rooms_def)
  from 1 2 3 4 5 6 7 8 9 show ?thesis by blast
qed

text \<open>
  C2, as the code has it. When the three collections load, a stored reservation with
  the identifier has status \<open>cancelled\<close> and the collections can be written,
  \<^verbatim>\<open>cancel_reservation\<close> logs that the reservation is already cancelled (once for
  each such reservation), writes the three files and returns \<open>True\<close>; the reservations
  loaded afterwards are the ones before, those with the identifier having status
  \<open>cancelled\<close>, so the reservation itself is as it was.
\<close>

theorem cancel_again_succeeds:
  assumes load: "load_all py w = (Inr (hs, cs, rs), w1)"
    and r: "r \<in> set rs" "reservation_id r = rid" "status r = ''cancelled''"
    and ok: "can_save_all py hs cs
               (map (\<lambda>x. if reservation_id x = rid then x\<lparr>status := ''cancelled''\<rparr> else x) rs)"
  shows "(let out = cancel_reservation py rid w;
              rs' = map (\<lambda>x. if reservation_id x = rid then x\<lparr>status := ''cancelled''\<rparr> else x) rs
          in fst out = Inr True
             \<and> fst (load_all py (snd out)) = Inr (hs, cs, rs')
             \<and> trace (snd out) =
                 trace w1 @
                 map (\<lambda>x. Log (Already_cancelled rid))
                   (filter (\<lambda>x. reservation_id x = rid \<and> status x = ''cancelled'') rs) @
                 [Write Hotels, Write Customers, Write Reservations]
             \<and> Log (Already_cancelled rid) \<in> set (trace (snd out))
             \<and> writes (trace (snd out)) = writes (trace w) @ [Hotels, Customers, Reservations])
         \<and> r\<lparr>status := ''cancelled''\<rparr> = r"
proof -
  let ?rs' = "map (\<lambda>x. if reservation_id x = rid then x\<lparr>status := ''cancelled''\<rparr> else x) rs"
  let ?logs = "map (\<lambda>x. Log (Already_cancelled rid))
                 (filter (\<lambda>x. reservation_id x = rid \<and> status x = ''cancelled'') rs)"
  let ?w2 = "w1\<lparr>trace := trace w1 @ ?logs\<rparr>"
  from load_all_unchanged [OF load] have t: "writes (trace w1) = writes (trace w)"
    by (simp add: unchanged_def)
  from r have ex: "list_ex (\<lambda>x. reservation_id x = rid) rs"
    by (auto simp: list_ex_set)
  from r(3) have same: "r\<lparr>status := ''cancelled''\<rparr> = r" by simp
  from r have "r \<in> set (filter (\<lambda>x. reservation_id x = rid \<and> status x = ''cancelled'') rs)"
    by simp
  then have logged: "Log (Already_cancelled rid) \<in> set ?logs"
    by (metis (no_types, lifting) image_eqI set_map)
  have run: "cancel_reservation py rid w = io_bind (save_all py hs cs ?rs') (\<lambda>_. io_return True) ?w2"
    by (simp add: cancel_reservation_apply [OF load] ex Let_def)
  have 1: "fst (cancel_reservation py rid w) = Inr True"
    by (simp add: run io_bind_apply io_return_apply save_all_ok [OF ok])
  have 2: "fst (load_all py (snd (cancel_reservation py rid w))) = Inr (hs, cs, ?rs')"
    using load_all_after_save [OF ok, of ?w2] cancel_keeps_rooms [OF load_all_rooms [OF load]]
    by (simp add: run io_bind_apply io_return_apply save_all_ok [OF ok])
  have 3: "trace (snd (cancel_reservation py rid w)) =
      trace w1 @ ?logs @ [Write Hotels, Write Customers, Write Reservations]"
    by (simp add: run io_bind_apply io_return_apply save_all_ok [OF ok])
  from 3 logged have 4: "Log (Already_cancelled rid) \<in> set (trace (snd (cancel_reservation py rid w)))"
    by simp
  have 5: "writes (trace (snd (cancel_reservation py rid w))) =
      writes (trace w) @ [Hotels, Customers, Reservations]"
    by (simp add: 3 writes_append writes_logs t)
  from 1 2 3 4 5 same show ?thesis by (simp add: Let_def)
qed

theorem cancel_again_succeeds_witness:
  "fst (cancel_reservation py0 ''r1'' (stored [azure_inn] [isaac] [booking 2 ''cancelled'']))
     = Inr True
   \<and> fst (load_all py0
        (snd (cancel_reservation py0 ''r1'' (stored [azure_inn] [isaac] [booking 2 ''cancelled'']))))
     = Inr ([azure_inn], [isaac], [booking 2 ''cancelled''])
   \<and> trace
        (snd (cancel_reservation py0 ''r1'' (stored [azure_inn] [isaac] [booking 2 ''cancelled''])))
     = [Read Hotels, Read Customers, Read Reservations, Log (Already_cancelled ''r1''),
        Write Hotels, Write Customers, Write Reservations]"
proof -
  have 1: "booking 2 ''cancelled'' \<in> set [booking 2 ''cancelled'']" by simp
  have 2: "reservation_id (booking 2 ''cancelled'') = ''r1''" by (simp add: booking_def)
  have 3: "status (booking 2 ''cancelled'') = ''cancelled''" by (simp add: booking_def)
  have m: "map (\<lambda>x. if reservation_id x = ''r1'' then x\<lparr>status := ''cancelled''\<rparr> else x)
      [booking 2 ''cancelled''] = [booking 2 ''cancelled'']"
    by (simp add: booking_def)
  have c: "''cancelled'' \<noteq> lone_surrogate" by (simp add: lone_surrogate_def)
  have ok: "can_save_all py0 [azure_inn] [isaac]
      (map (\<lambda>x. if reservation_id x = ''r1'' then x\<lparr>status := ''cancelled''\<rparr> else x)
         [booking 2 ''cancelled''])"
    unfolding m by (rule can_save_samples(3) [OF c])
  show ?thesis
    using cancel_again_succeeds [OF load_all_booking [where py = py0 and hs = "[azure_inn]"
          and cs = "[isaac]"] 1 2 3 ok]
    by (simp add: Let_def m 2 3)
qed

text \<open>
  Cancelling a reservation that is already cancelled does not report a failure; and
  with a customer whose name holds a lone surrogate the write raises
  \<^verbatim>\<open>UnicodeEncodeError\<close>.
\<close>

theorem cancel_cancelled_returns_true:
  "fst (load_all py0 (stored [azure_inn] [isaac] [booking 2 ''cancelled''])) =
      Inr ([azure_inn], [isaac], [booking 2 ''cancelled''])
   \<and> status (booking 2 ''cancelled'') = ''cancelled''
   \<and> fst (cancel_reservation py0 (reservation_id (booking 2 ''cancelled''))
          (stored [azure_inn] [isaac] [booking 2 ''cancelled''])) = Inr True
   \<and> fst (load_all py0
          (stored [azure_inn] [isaac\<lparr>customer_name := lone_surrogate\<rparr>] [booking 2 ''cancelled''])) =
      Inr ([azure_inn], [isaac\<lparr>customer_name := lone_surrogate\<rparr>], [booking 2 ''cancelled''])
   \<and> fst (cancel_reservation py0 (reservation_id (booking 2 ''cancelled''))
          (stored [azure_inn] [isaac\<lparr>customer_name := lone_surrogate\<rparr>] [booking 2 ''cancelled''])) =
      Inl UnicodeEncodeError"
proof -
  have id: "reservation_id (booking 2 ''cancelled'') = ''r1''" by (simp add: booking_def)
  have ex: "list_ex (\<lambda>x. reservation_id x = ''r1'') [booking 2 ''cancelled'']"
    by (simp add: booking_def)
  have m: "map (\<lambda>x. if reservation_id x = ''r1'' then x\<lparr>status := ''cancelled''\<rparr> else x)
      [booking 2 ''cancelled''] = [booking 2 ''cancelled'']"
    by (simp add: booking_def)
  have c: "''cancelled'' \<noteq> lone_surrogate" by (simp add: lone_surrogate_def)
  have 1: "fst (load_all py0 (stored [azure_inn] [isaac] [booking 2 ''cancelled''])) =
      Inr ([azure_inn], [isaac], [booking 2 ''cancelled''])"
    by (simp add: load_all_booking)
  have 2: "status (booking 2 ''cancelled'') = ''cancelled''" by (simp add: booking_def)
  have 3: "fst (cancel_reservation py0 ''r1''
          (stored [azure_inn] [isaac] [booking 2 ''cancelled''])) = Inr True"
    by (simp only: cancel_reservation_apply [OF load_all_booking] ex m Let_def if_True
        io_bind_apply io_return_apply save_all_ok [OF can_save_samples(3) [OF c]])
      simp
  have 4: "fst (load_all py0
          (stored [azure_inn] [isaac\<lparr>customer_name := lone_surrogate\<rparr>] [booking 2 ''cancelled''])) =
      Inr ([azure_inn], [isaac\<lparr>customer_name := lone_surrogate\<rparr>], [booking 2 ''cancelled''])"
    by (simp add: load_all_booking)
  have 5: "fst (cancel_reservation py0 ''r1''
          (stored [azure_inn] [isaac\<lparr>customer_name := lone_surrogate\<rparr>] [booking 2 ''cancelled''])) =
      Inl UnicodeEncodeError"
    by (simp only: cancel_reservation_apply [OF load_all_booking] ex m Let_def if_True
        save_all_bad_customer [OF surrogate_customer(2) surrogate_customer(3)
          surrogate_customer(4)])
  from 1 2 3 4 5 show ?thesis unfolding id by blast
qed

text \<open>
  C3, as the code has it. For a room count that is not positive, \<^verbatim>\<open>create_hotel\<close>
  raises \<^verbatim>\<open>ValueError\<close> and \<^verbatim>\<open>create_reservation\<close> returns nothing after logging
  a message; neither reads or writes a file.
\<close>

theorem nonpositive_rooms:
  assumes "int_value n \<le> 0"
  shows "create_hotel py new_id nm cty (int_value n) w = (Inl ValueError, w)
       \<and> create_reservation py new_id hid cid n w =
           (Inr None, w\<lparr>trace := trace w @ [Log Rooms_must_be_positive]\<rparr>)"
  using assms by (simp add: create_hotel_def io_simps create_reservation_nonpositive)

theorem nonpositive_rooms_witness:
  "create_hotel py0 ''h2'' ''Gran Via'' ''Leon'' 0 (stored [] [] []) =
     (Inl ValueError, stored [] [] [])
   \<and> create_reservation py0 ''r2'' ''h1'' ''c1'' (PyInt 0) (stored [] [] []) =
     (Inr None, (stored [] [] [])\<lparr>trace := [Log Rooms_must_be_positive]\<rparr>)"
  using nonpositive_rooms [where n = "PyInt 0" and py = py0 and w = "stored [] [] []"]
  by (simp add: stored_def)

text \<open>
  \<^verbatim>\<open>create_reservation\<close> raises no exception for a room count below 1.
\<close>

theorem reservation_of_no_rooms_returns_none:
  "create_reservation py0 ''r2'' ''h1'' ''c1'' (PyInt (- 1)) (stored [azure_inn] [isaac] []) =
     (Inr None, (stored [azure_inn] [isaac] [])\<lparr>trace := [Log Rooms_must_be_positive]\<rparr>)"
  by (simp add: create_reservation_nonpositive stored_def)

end
